theory Spec2Isabelle
  imports Complex_Main "HOL-Library.Stream"
begin

section \<open>Exceptions\<close>

text \<open>
  The module \<^verbatim>\<open>chemprop/data/data.py\<close> raises Python exceptions. Every exception that a
  modelled function can raise is a value of the type below; the messages are the strings
  of the source. A function that mutates its object returns the object as the exception
  left it, since Python does not roll back assignments made before a \<^verbatim>\<open>raise\<close>.
\<close>

datatype error =
    IndexError
  | KeyError
  | ZeroDivisionError
  | AssertionError
  | ValueError string
  | Exception string
  | AttributeError string
  | TypeError string

section \<open>Python and numpy primitives\<close>

text \<open>
  Indexing a Python list or a one-dimensional numpy array with an integer: a negative
  index counts from the end, anything outside \<open>-n \<le> i < n\<close> raises \<^verbatim>\<open>IndexError\<close>.
\<close>

definition norm_index :: "nat \<Rightarrow> int \<Rightarrow> nat option" where
  "norm_index n i =
     (if 0 \<le> i \<and> i < int n then Some (nat i)
      else if - int n \<le> i \<and> i < 0 then Some (nat (i + int n))
      else None)"

definition list_getitem :: "'a list \<Rightarrow> int \<Rightarrow> error + 'a" where
  "list_getitem xs i =
     (case norm_index (length xs) i of None \<Rightarrow> Inl IndexError | Some k \<Rightarrow> Inr (xs ! k))"

text \<open>\<^verbatim>\<open>xs[lo:hi]\<close> on a list: bounds are clamped, negative bounds count from the end.\<close>

definition slice_bound :: "nat \<Rightarrow> int \<Rightarrow> nat" where
  "slice_bound n i = (if i < 0 then nat (max (i + int n) 0) else min (nat i) n)"

definition slice_py :: "'a list \<Rightarrow> int \<Rightarrow> int \<Rightarrow> 'a list" where
  "slice_py xs lo hi =
     (let a = slice_bound (length xs) lo; b = slice_bound (length xs) hi
      in take (b - a) (drop a xs))"

definition enumerate_py :: "'a list \<Rightarrow> (int \<times> 'a) list" where
  "enumerate_py xs = map (\<lambda>(i, x). (int i, x)) (List.enumerate 0 xs)"

text \<open>
  A numpy array is its shape and its elements in row-major order. \<^verbatim>\<open>np.squeeze\<close> drops
  the axes of length one; \<^verbatim>\<open>len\<close> is the length of the first axis and raises on a
  zero-dimensional array; iterating yields the sub-arrays along the first axis (a numpy
  scalar is the zero-dimensional array holding it).
\<close>

datatype 'f ndarray = NDArray (shape: "nat list") (flat: "'f list")

definition np_array :: "'f list \<Rightarrow> 'f ndarray" where
  "np_array xs = NDArray [length xs] xs"

definition np_squeeze :: "'f ndarray \<Rightarrow> 'f ndarray" where
  "np_squeeze a = NDArray (filter (\<lambda>d. d \<noteq> 1) (shape a)) (flat a)"

definition ndarray_len :: "'f ndarray \<Rightarrow> error + nat" where
  "ndarray_len a =
     (case shape a of
        [] \<Rightarrow> Inl (TypeError ''len() of unsized object'')
      | d # ds \<Rightarrow> Inr d)"

definition ndarray_iter :: "'f ndarray \<Rightarrow> error + 'f ndarray list" where
  "ndarray_iter a =
     (case shape a of
        [] \<Rightarrow> Inl (TypeError ''iteration over a 0-d array'')
      | d # ds \<Rightarrow>
          Inr (map (\<lambda>i. NDArray ds (take (prod_list ds) (drop (i * prod_list ds) (flat a))))
                   [0..<d]))"

text \<open>
  \<^verbatim>\<open>mask[i]\<close> and \<^verbatim>\<open>mask[i] = v\<close> with an integer, and \<^verbatim>\<open>mask[cluster] = 0\<close> with a list of
  integers, on a one-dimensional array. The bounds of every index are checked before
  anything is written.
\<close>

definition np_getitem :: "'a list \<Rightarrow> int \<Rightarrow> error + 'a" where
  "np_getitem m i =
     (case norm_index (length m) i of None \<Rightarrow> Inl IndexError | Some k \<Rightarrow> Inr (m ! k))"

definition np_setitem :: "'a list \<Rightarrow> int \<Rightarrow> 'a \<Rightarrow> error + 'a list" where
  "np_setitem m i v =
     (case norm_index (length m) i of None \<Rightarrow> Inl IndexError | Some k \<Rightarrow> Inr (m[k := v]))"

definition np_setitems :: "'a list \<Rightarrow> int list \<Rightarrow> 'a \<Rightarrow> error + 'a list" where
  "np_setitems m idx v =
     (if list_all (\<lambda>i. norm_index (length m) i \<noteq> None) idx
      then Inr (fold (\<lambda>i acc. case norm_index (length m) i of
                                 None \<Rightarrow> acc | Some k \<Rightarrow> acc[k := v]) idx m)
      else Inl IndexError)"

section \<open>Sources of randomness and of arbitrary choice\<close>

text \<open>
  The module draws from two global generators, Python's \<^verbatim>\<open>random\<close> and numpy's
  \<^verbatim>\<open>np.random\<close>, and pops elements from a \<^verbatim>\<open>set\<close>, whose order is arbitrary. Each is an
  infinite stream of raw draws, so that a run is a function of the streams and every
  property proved for all streams holds for every run:
  \<^item> \<open>py_random\<close>: the raw draws of \<^verbatim>\<open>random\<close> (used by \<^verbatim>\<open>random.randint\<close> and
    \<^verbatim>\<open>random.shuffle\<close>, replaced by \<^verbatim>\<open>random.seed\<close>);
  \<^item> \<open>np_uniform\<close>: the values of \<^verbatim>\<open>np.random.random()\<close> and \<^verbatim>\<open>np.random.rand(n)\<close>;
  \<^item> \<open>np_integers\<close>: the raw draws behind \<^verbatim>\<open>np.random.randint(n)\<close>;
  \<^item> \<open>set_order\<close>: which element \<^verbatim>\<open>set.pop()\<close> removes.
  Floating-point numbers are elements of an ordered field \<open>'f\<close>; only their comparison
  and one division are used.
\<close>

record 'f world =
  py_random :: "nat stream"
  np_uniform :: "'f stream"
  np_integers :: "nat stream"
  set_order :: "nat stream"

text \<open>\<^verbatim>\<open>random.seed(seed)\<close>: the generator restarts from the stream the seed determines.\<close>

definition random_seed :: "(int \<Rightarrow> nat stream) \<Rightarrow> int \<Rightarrow> 'f world \<Rightarrow> 'f world" where
  "random_seed seed_stream seed w = w\<lparr>py_random := seed_stream seed\<rparr>"

text \<open>\<^verbatim>\<open>random.randint(a, b)\<close>: an integer in \<open>a \<le> x \<le> b\<close>.\<close>

definition random_randint :: "int \<Rightarrow> int \<Rightarrow> 'f world \<Rightarrow> (error + int) \<times> 'f world" where
  "random_randint a b w =
     (if b < a then (Inl (ValueError ''empty range for randrange()''), w)
      else (Inr (a + int (shd (py_random w) mod nat (b - a + 1))),
            w\<lparr>py_random := stl (py_random w)\<rparr>))"

text \<open>
  \<^verbatim>\<open>random.shuffle(x)\<close>, the library's loop:
  \<^verbatim>\<open>
  for i in reversed(range(1, len(x))):
      j = randbelow(i + 1)
      x[i], x[j] = x[j], x[i]
  \<close>
\<close>

fun shuffle_loop :: "nat \<Rightarrow> 'a list \<Rightarrow> nat stream \<Rightarrow> 'a list \<times> nat stream" where
  "shuffle_loop 0 xs s = (xs, s)"
| "shuffle_loop (Suc k) xs s =
     (let i = Suc k; j = shd s mod (i + 1)
      in shuffle_loop k (xs[i := xs ! j, j := xs ! i]) (stl s))"

definition random_shuffle :: "'a list \<Rightarrow> 'f world \<Rightarrow> 'a list \<times> 'f world" where
  "random_shuffle xs w =
     (case shuffle_loop (length xs - 1) xs (py_random w) of
        (ys, s) \<Rightarrow> (ys, w\<lparr>py_random := s\<rparr>))"

definition np_random_random :: "'f world \<Rightarrow> 'f \<times> 'f world" where
  "np_random_random w = (shd (np_uniform w), w\<lparr>np_uniform := stl (np_uniform w)\<rparr>)"

definition np_random_rand :: "nat \<Rightarrow> 'f world \<Rightarrow> 'f list \<times> 'f world" where
  "np_random_rand n w = (stake n (np_uniform w), w\<lparr>np_uniform := sdrop n (np_uniform w)\<rparr>)"

text \<open>\<^verbatim>\<open>np.random.randint(n)\<close>: an integer in \<open>0 \<le> x < n\<close>; raises when \<open>n \<le> 0\<close>.\<close>

definition np_random_randint :: "nat \<Rightarrow> 'f world \<Rightarrow> (error + int) \<times> 'f world" where
  "np_random_randint n w =
     (if n = 0 then (Inl (ValueError ''low >= high''), w)
      else (Inr (int (shd (np_integers w) mod n)), w\<lparr>np_integers := stl (np_integers w)\<rparr>))"

text \<open>
  \<^verbatim>\<open>atoms.pop()\<close> on a set held as a list: some element leaves the set; popping from
  an empty set raises \<^verbatim>\<open>KeyError\<close>.
\<close>

definition set_pop :: "int list \<Rightarrow> 'f world \<Rightarrow> (error + int) \<times> int list \<times> 'f world" where
  "set_pop atoms w =
     (if atoms = [] then (Inl KeyError, atoms, w)
      else (let x = atoms ! (shd (set_order w) mod length atoms)
            in (Inr x, removeAll x atoms, w\<lparr>set_order := stl (set_order w)\<rparr>)))"

section \<open>SparseNoneArray\<close>

text \<open>
  \<^verbatim>\<open>
  class SparseNoneArray:
      def __init__(self, targets):
          self.length = len(targets)
          self.targets = defaultdict(lambda: None,
                                     {i: x for i, x in enumerate(targets) if x is not None})
      def __len__(self):
          return self.length
      def __getitem__(self, i):
          if i >= self.length:
              raise IndexError
          return self.targets[i]
  \<close>
  The dictionary is a \<^verbatim>\<open>defaultdict\<close> whose factory returns \<^verbatim>\<open>None\<close>: reading a key that
  is absent stores \<^verbatim>\<open>None\<close> under that key and returns it. A stored value is therefore an
  optional value, and a lookup returns the array as the lookup left it.
\<close>

record 'a SparseNoneArray =
  sna_length :: nat
  sna_targets :: "int \<rightharpoonup> 'a option"

definition SparseNoneArray_init :: "'a option list \<Rightarrow> 'a SparseNoneArray" where
  "SparseNoneArray_init targets =
     \<lparr> sna_length = length targets,
       sna_targets = map_of (filter (\<lambda>(i, x). x \<noteq> None) (enumerate_py targets)) \<rparr>"

definition SparseNoneArray_len :: "'a SparseNoneArray \<Rightarrow> nat" where
  "SparseNoneArray_len a = sna_length a"

definition SparseNoneArray_getitem ::
    "'a SparseNoneArray \<Rightarrow> int \<Rightarrow> (error + 'a option) \<times> 'a SparseNoneArray" where
  "SparseNoneArray_getitem a i =
     (if i \<ge> int (sna_length a) then (Inl IndexError, a)
      else (case sna_targets a i of
              Some x \<Rightarrow> (Inr x, a)
            | None \<Rightarrow> (Inr None, a\<lparr>sna_targets := (sna_targets a)(i \<mapsto> None)\<rparr>)))"

section \<open>MoleculeDatapoint\<close>

text \<open>
  The targets of a datapoint are a list of optional floats, the feature array itself
  (\<^verbatim>\<open>predict_features\<close>), either of them wrapped in a \<^verbatim>\<open>SparseNoneArray\<close>, or whatever
  \<^verbatim>\<open>set_targets\<close> stored (a single float for the unsupervised pipeline).
\<close>

datatype 'f targets =
    TList "'f option list"
  | TArray "'f ndarray"
  | TSparse "'f SparseNoneArray"
  | TSparseArray "'f ndarray SparseNoneArray"
  | TFloat 'f

definition targets_len :: "'f targets \<Rightarrow> error + nat" where
  "targets_len t =
     (case t of
        TList xs \<Rightarrow> Inr (length xs)
      | TArray a \<Rightarrow> ndarray_len a
      | TSparse s \<Rightarrow> Inr (SparseNoneArray_len s)
      | TSparseArray s \<Rightarrow> Inr (SparseNoneArray_len s)
      | TFloat x \<Rightarrow> Inl (TypeError ''object of type float has no len()''))"

text \<open>
  The vocabulary (\<^verbatim>\<open>chemprop/data/vocab.py\<close>), the feature generators
  (\<^verbatim>\<open>chemprop/features\<close>) and the conversion \<^verbatim>\<open>float(x)\<close> are not part of this module:
  they are parameters, and each may raise.
\<close>

record Vocab =
  smiles2indices :: "string \<Rightarrow> error + int list \<times> int list list"

record 'f externals =
  morgan_fingerprint :: "string \<Rightarrow> bool \<Rightarrow> error + 'f list"
  rdkit_2d_features :: "string \<Rightarrow> error + 'f list"
  float_py :: "string \<Rightarrow> error + 'f"

record 'f Namespace =
  features_generator :: "string list option"
  predict_features :: bool
  sparse :: bool
  dataset_type :: string
  args_bert_mask_prob :: 'f
  args_bert_mask_type :: string
  vocab :: "Vocab option"

text \<open>
  The attributes \<^verbatim>\<open>bert_mask_prob\<close> and \<^verbatim>\<open>bert_mask_type\<close> are not set when \<^verbatim>\<open>args\<close> is
  \<^verbatim>\<open>None\<close>; \<^verbatim>\<open>vocab_targets\<close> and \<^verbatim>\<open>nb_indices\<close> are set by \<^verbatim>\<open>bert_init\<close> and \<^verbatim>\<open>mask\<close> by
  \<^verbatim>\<open>recreate_mask\<close>. Reading an attribute that is not set raises \<^verbatim>\<open>AttributeError\<close>.
  A mask entry is \<open>1\<close> (numpy's \<^verbatim>\<open>1.0\<close> or \<^verbatim>\<open>True\<close>) or \<open>0\<close> (\<^verbatim>\<open>0.0\<close> or \<^verbatim>\<open>False\<close>).
\<close>

record 'f MoleculeDatapoint =
  bert_pretraining :: bool
  bert_mask_prob :: "'f option"
  bert_mask_type :: "string option"
  compound_name :: "string option"
  smiles :: string
  features :: "'f ndarray option"
  num_tasks :: nat
  targets :: "'f targets"
  vocab_targets :: "int list option"
  nb_indices :: "int list list option"
  mask :: "nat list option"

subsection \<open>Construction\<close>

text \<open>Lines 58 to 64: the optional compound name, then the SMILES string.\<close>

definition split_line ::
    "bool \<Rightarrow> string list \<Rightarrow> error + (string option \<times> string \<times> string list)" where
  "split_line use_compound_names line =
     (case (if use_compound_names
            then (case line of [] \<Rightarrow> Inl IndexError | x # rest \<Rightarrow> Inr (Some x, rest))
            else Inr (None, line)) of
        Inl e \<Rightarrow> Inl e
      | Inr (name, line1) \<Rightarrow>
          (case line1 of [] \<Rightarrow> Inl IndexError | smi # cells \<Rightarrow> Inr (name, smi, cells)))"

text \<open>Lines 73 to 82: the generated features, concatenated in the order of the names.\<close>

fun generate_features ::
    "'f externals \<Rightarrow> string \<Rightarrow> string list \<Rightarrow> 'f list \<Rightarrow> error + 'f list" where
  "generate_features ext smi [] acc = Inr acc"
| "generate_features ext smi (fg # fgs) acc =
     (if fg = ''morgan'' then
        (case morgan_fingerprint ext smi False of
           Inl e \<Rightarrow> Inl e | Inr v \<Rightarrow> generate_features ext smi fgs (acc @ v))
      else if fg = ''morgan_count'' then
        (case morgan_fingerprint ext smi True of
           Inl e \<Rightarrow> Inl e | Inr v \<Rightarrow> generate_features ext smi fgs (acc @ v))
      else if fg = ''rdkit_2d'' then
        (case rdkit_2d_features ext smi of
           Inl e \<Rightarrow> Inl e | Inr v \<Rightarrow> generate_features ext smi fgs (acc @ v))
      else Inl (ValueError (''features_generator type '' @ [CHR 0x22] @ fg @ [CHR 0x22]
                            @ '' not supported.'')))"

text \<open>Line 92: \<^verbatim>\<open>[float(x) if x != '' else None for x in line[1:]]\<close>.\<close>

fun parse_targets :: "(string \<Rightarrow> error + 'f) \<Rightarrow> string list \<Rightarrow> error + 'f option list" where
  "parse_targets conv [] = Inr []"
| "parse_targets conv (x # xs) =
     (case (if x \<noteq> [] then map_sum id Some (conv x) else Inr None) of
        Inl e \<Rightarrow> Inl e
      | Inr v \<Rightarrow> (case parse_targets conv xs of Inl e \<Rightarrow> Inl e | Inr vs \<Rightarrow> Inr (v # vs)))"

text \<open>Line 97: \<^verbatim>\<open>SparseNoneArray(self.targets)\<close>, on a list or on the feature array.\<close>

definition sparse_targets :: "'f option list + 'f ndarray \<Rightarrow> error + 'f targets" where
  "sparse_targets t =
     (case t of
        Inl xs \<Rightarrow> Inr (TSparse (SparseNoneArray_init xs))
      | Inr a \<Rightarrow>
          (case ndarray_iter a of
             Inl e \<Rightarrow> Inl e
           | Inr rows \<Rightarrow> Inr (TSparseArray (SparseNoneArray_init (map Some rows)))))"

definition dense_targets :: "'f option list + 'f ndarray \<Rightarrow> 'f targets" where
  "dense_targets t = (case t of Inl xs \<Rightarrow> TList xs | Inr a \<Rightarrow> TArray a)"

text \<open>Lines 85 to 97: the targets and the number of tasks.\<close>

definition init_targets ::
    "'f externals \<Rightarrow> 'f Namespace option \<Rightarrow> 'f ndarray option \<Rightarrow> string list
       \<Rightarrow> error + (nat \<times> 'f targets)" where
  "init_targets ext args feats cells =
     (if (case args of None \<Rightarrow> False
          | Some a \<Rightarrow> dataset_type a = ''unsupervised'' \<or> dataset_type a = ''bert_pretraining'')
      then Inr (1, TList [None])
      else
        (case (if (case args of None \<Rightarrow> False | Some a \<Rightarrow> predict_features a)
               then (case feats of
                       None \<Rightarrow> Inl (TypeError ''object of type NoneType has no len()'')
                     | Some a \<Rightarrow> Inr (Inr a))
               else map_sum id Inl (parse_targets (float_py ext) cells)) of
           Inl e \<Rightarrow> Inl e
         | Inr t \<Rightarrow>
             (case targets_len (dense_targets t) of
                Inl e \<Rightarrow> Inl e
              | Inr n \<Rightarrow>
                  if (case args of None \<Rightarrow> False | Some a \<Rightarrow> sparse a)
                  then map_sum id (\<lambda>s. (n, s)) (sparse_targets t)
                  else Inr (n, dense_targets t))))"

definition MoleculeDatapoint_init ::
    "'f externals \<Rightarrow> string list \<Rightarrow> 'f Namespace option \<Rightarrow> 'f ndarray option \<Rightarrow> bool
       \<Rightarrow> error + 'f MoleculeDatapoint" where
  "MoleculeDatapoint_init ext line args features0 use_compound_names =
     (if features0 \<noteq> None \<and> (case args of None \<Rightarrow> False | Some a \<Rightarrow> features_generator a \<noteq> None)
      then Inl (ValueError
                  ''Currently cannot provide both loaded features and a features generator.'')
      else
        (case split_line use_compound_names line of
           Inl e \<Rightarrow> Inl e
         | Inr (name, smi, cells) \<Rightarrow>
             (case (case (case args of None \<Rightarrow> None | Some a \<Rightarrow> features_generator a) of
                      None \<Rightarrow>
                        Inr (map_option (\<lambda>a. if length (shape a) > 1 then np_squeeze a else a)
                               features0)
                    | Some fgs \<Rightarrow>
                        map_sum id (\<lambda>fs. Some (np_array fs)) (generate_features ext smi fgs [])) of
                Inl e \<Rightarrow> Inl e
              | Inr feats \<Rightarrow>
                  (case init_targets ext args feats cells of
                     Inl e \<Rightarrow> Inl e
                   | Inr (n, t) \<Rightarrow>
                       Inr \<lparr> bert_pretraining =
                               (case args of None \<Rightarrow> False
                                | Some a \<Rightarrow> dataset_type a = ''bert_pretraining''),
                             bert_mask_prob = map_option args_bert_mask_prob args,
                             bert_mask_type = map_option args_bert_mask_type args,
                             compound_name = name,
                             smiles = smi,
                             features = feats,
                             num_tasks = n,
                             targets = t,
                             vocab_targets = None,
                             nb_indices = None,
                             mask = None \<rparr>))))"

subsection \<open>Mask generation\<close>

definition nb_getitem :: "int list list option \<Rightarrow> int \<Rightarrow> error + int list" where
  "nb_getitem nb i =
     (case nb of None \<Rightarrow> Inl (AttributeError ''nb_indices'') | Some l \<Rightarrow> list_getitem l i)"

text \<open>
  The cluster policy, lines 115 to 126. The state of the loop is the mask, the set of
  atoms still to process, the sources of randomness and the exception raised, if any.
  \<^verbatim>\<open>
  while len(atoms) != 0:
      atom = atoms.pop()
      neighbors = self.nb_indices[atom]
      cluster = [atom] + neighbors
      if np.random.random() < self.bert_mask_prob / len(cluster):
          self.mask[cluster] = 0
          atoms -= set(neighbors)
  \<close>
\<close>

record 'f cluster_state =
  cs_mask :: "nat list"
  cs_atoms :: "int list"
  cs_world :: "'f world"
  cs_raised :: "error option"

definition cluster_body ::
    "('f::linordered_field) option \<Rightarrow> int list list option \<Rightarrow> 'f cluster_state
       \<Rightarrow> 'f cluster_state" where
  "cluster_body p nb st =
     (case set_pop (cs_atoms st) (cs_world st) of
        (Inl e, atoms1, w1) \<Rightarrow> st\<lparr>cs_atoms := atoms1, cs_world := w1, cs_raised := Some e\<rparr>
      | (Inr atom, atoms1, w1) \<Rightarrow>
          (case nb_getitem nb atom of
             Inl e \<Rightarrow> st\<lparr>cs_atoms := atoms1, cs_world := w1, cs_raised := Some e\<rparr>
           | Inr neighbors \<Rightarrow>
               (let cluster = atom # neighbors in
                case np_random_random w1 of
                  (u, w2) \<Rightarrow>
                    (case p of
                       None \<Rightarrow>
                         st\<lparr>cs_atoms := atoms1, cs_world := w2,
                            cs_raised := Some (AttributeError ''bert_mask_prob'')\<rparr>
                     | Some prob \<Rightarrow>
                         if u < prob / of_nat (length cluster) then
                           (case np_setitems (cs_mask st) cluster 0 of
                              Inl e \<Rightarrow>
                                st\<lparr>cs_atoms := atoms1, cs_world := w2, cs_raised := Some e\<rparr>
                            | Inr m \<Rightarrow>
                                st\<lparr>cs_mask := m,
                                   cs_atoms := filter (\<lambda>a. a \<notin> set neighbors) atoms1,
                                   cs_world := w2\<rparr>)
                         else st\<lparr>cs_atoms := atoms1, cs_world := w2\<rparr>))))"

function cluster_loop ::
    "('f::linordered_field) option \<Rightarrow> int list list option \<Rightarrow> 'f cluster_state
       \<Rightarrow> 'f cluster_state" where
  "cluster_loop p nb st =
     (if cs_atoms st = [] \<or> cs_raised st \<noteq> None then st
      else cluster_loop p nb (cluster_body p nb st))"
  by pat_completeness auto
termination
proof (relation "measure (\<lambda>(p, nb, st). length (cs_atoms st))")
  show "wf (measure (\<lambda>(p, nb, st). length (cs_atoms st)))"
    by simp
next
  fix p :: "('f::linordered_field) option" and nb :: "int list list option"
    and st :: "'f cluster_state"
  assume a: "\<not> (cs_atoms st = [] \<or> cs_raised st \<noteq> None)"
  define x where "x = cs_atoms st ! (shd (set_order (cs_world st)) mod length (cs_atoms st))"
  have "x \<in> set (cs_atoms st)"
    using a by (simp add: x_def)
  then have r: "length (removeAll x (cs_atoms st)) < length (cs_atoms st)"
    by (simp add: length_removeAll_less)
  have f: "length (filter P (removeAll x (cs_atoms st))) < length (cs_atoms st)" for P
    using r le_less_trans [OF length_filter_le] by blast
  have "length (cs_atoms (cluster_body p nb st)) < length (cs_atoms st)"
    using a r f
    by (simp add: cluster_body_def set_pop_def np_random_random_def Let_def x_def [symmetric]
             split: sum.splits option.splits prod.splits)
  then show "((p, nb, cluster_body p nb st), (p, nb, st))
               \<in> measure (\<lambda>(p, nb, st). length (cs_atoms st))"
    by simp
qed

declare cluster_loop.simps [simp del]

text \<open>Lines 128 to 132: if nothing is masked, mask the cluster of a random atom.\<close>

definition ensure_cluster ::
    "int list list option \<Rightarrow> nat list \<Rightarrow> 'f world \<Rightarrow> error option \<times> nat list \<times> 'f world" where
  "ensure_cluster nb m w =
     (if sum_list m = length m then
        (case np_random_randint (length m) w of
           (Inl e, w1) \<Rightarrow> (Some e, m, w1)
         | (Inr atom, w1) \<Rightarrow>
             (case nb_getitem nb atom of
                Inl e \<Rightarrow> (Some e, m, w1)
              | Inr neighbors \<Rightarrow>
                  (case np_setitems m (atom # neighbors) 0 of
                     Inl e \<Rightarrow> (Some e, m, w1)
                   | Inr m' \<Rightarrow> (None, m', w1))))
      else (None, m, w))"

definition mask_cluster ::
    "('f::linordered_field) option \<Rightarrow> int list list option \<Rightarrow> nat \<Rightarrow> 'f world
       \<Rightarrow> error option \<times> nat list \<times> 'f world" where
  "mask_cluster p nb num_targets w =
     (let st = cluster_loop p nb
                 \<lparr> cs_mask = replicate num_targets 1,
                   cs_atoms = map int [0..<num_targets],
                   cs_world = w,
                   cs_raised = None \<rparr>
      in case cs_raised st of
           Some e \<Rightarrow> (Some e, cs_mask st, cs_world st)
         | None \<Rightarrow> ensure_cluster nb (cs_mask st) (cs_world st))"

text \<open>Lines 135 and 149: \<^verbatim>\<open>np.random.rand(num_targets) > self.bert_mask_prob\<close>.\<close>

definition bernoulli_mask ::
    "('f::linordered_field) option \<Rightarrow> nat \<Rightarrow> 'f world \<Rightarrow> (error + nat list) \<times> 'f world" where
  "bernoulli_mask p num_targets w =
     (case np_random_rand num_targets w of
        (us, w1) \<Rightarrow>
          (case p of
             None \<Rightarrow> (Inl (AttributeError ''bert_mask_prob''), w1)
           | Some prob \<Rightarrow> (Inr (map (\<lambda>u. if u > prob then 1 else 0) us), w1)))"

text \<open>Lines 145 to 146 and 152 to 153: if nothing is masked, mask one random position.\<close>

definition ensure_one :: "nat list \<Rightarrow> 'f world \<Rightarrow> error option \<times> nat list \<times> 'f world" where
  "ensure_one m w =
     (if sum_list m = length m then
        (case np_random_randint (length m) w of
           (Inl e, w1) \<Rightarrow> (Some e, m, w1)
         | (Inr k, w1) \<Rightarrow>
             (case np_setitem m k 0 of
                Inl e \<Rightarrow> (Some e, m, w1)
              | Inr m' \<Rightarrow> (None, m', w1)))
      else (None, m, w))"

text \<open>
  One pass of the correlation policy, lines 139 to 142:
  \<^verbatim>\<open>
  index_to_change = random.randint(0, len(self.mask) - 1)
  if len(self.nb_indices[index_to_change]) > 0:
      nbr_index = random.randint(0, len(self.nb_indices[index_to_change]) - 1)
      self.mask[index_to_change] = self.mask[nbr_index]
  \<close>
\<close>

definition correlation_pass ::
    "int list list option \<Rightarrow> nat list \<Rightarrow> 'f world \<Rightarrow> error option \<times> nat list \<times> 'f world" where
  "correlation_pass nb m w =
     (case random_randint 0 (int (length m) - 1) w of
        (Inl e, w1) \<Rightarrow> (Some e, m, w1)
      | (Inr index_to_change, w1) \<Rightarrow>
          (case nb_getitem nb index_to_change of
             Inl e \<Rightarrow> (Some e, m, w1)
           | Inr nbs \<Rightarrow>
               if length nbs > 0 then
                 (case random_randint 0 (int (length nbs) - 1) w1 of
                    (Inl e, w2) \<Rightarrow> (Some e, m, w2)
                  | (Inr nbr_index, w2) \<Rightarrow>
                      (case np_getitem m nbr_index of
                         Inl e \<Rightarrow> (Some e, m, w2)
                       | Inr v \<Rightarrow>
                           (case np_setitem m index_to_change v of
                              Inl e \<Rightarrow> (Some e, m, w2)
                            | Inr m' \<Rightarrow> (None, m', w2))))
               else (None, m, w1)))"

text \<open>Line 138: \<^verbatim>\<open>for _ in range(len(self.mask))\<close>, the number of passes fixed on entry.\<close>

fun correlation_loop ::
    "nat \<Rightarrow> int list list option \<Rightarrow> nat list \<Rightarrow> 'f world
       \<Rightarrow> error option \<times> nat list \<times> 'f world" where
  "correlation_loop 0 nb m w = (None, m, w)"
| "correlation_loop (Suc k) nb m w =
     (case correlation_pass nb m w of
        (Some e, m', w') \<Rightarrow> (Some e, m', w')
      | (None, m', w') \<Rightarrow> correlation_loop k nb m' w')"

definition mask_correlation ::
    "('f::linordered_field) option \<Rightarrow> int list list option \<Rightarrow> nat \<Rightarrow> 'f world
       \<Rightarrow> (error + error option \<times> nat list) \<times> 'f world" where
  "mask_correlation p nb num_targets w =
     (case bernoulli_mask p num_targets w of
        (Inl e, w1) \<Rightarrow> (Inl e, w1)
      | (Inr m0, w1) \<Rightarrow>
          (case correlation_loop (length m0) nb m0 w1 of
             (Some e, m1, w2) \<Rightarrow> (Inr (Some e, m1), w2)
           | (None, m1, w2) \<Rightarrow>
               (case ensure_one m1 w2 of (r, m2, w3) \<Rightarrow> (Inr (r, m2), w3))))"

definition mask_random ::
    "('f::linordered_field) option \<Rightarrow> nat \<Rightarrow> 'f world
       \<Rightarrow> (error + error option \<times> nat list) \<times> 'f world" where
  "mask_random p num_targets w =
     (case bernoulli_mask p num_targets w of
        (Inl e, w1) \<Rightarrow> (Inl e, w1)
      | (Inr m0, w1) \<Rightarrow> (case ensure_one m0 w1 of (r, m1, w2) \<Rightarrow> (Inr (r, m1), w2)))"

text \<open>
  \<^verbatim>\<open>recreate_mask\<close>, lines 106 to 159. The result is the exception raised, if any, the
  datapoint and the sources of randomness. \<^verbatim>\<open>self.mask\<close> is assigned as soon as the
  initial array exists, so an exception raised later leaves the array of that moment in
  the attribute; an exception raised while the initial array is computed leaves the
  attribute as it was.
\<close>

definition recreate_mask ::
    "('f::linordered_field) MoleculeDatapoint \<Rightarrow> 'f world
       \<Rightarrow> error option \<times> 'f MoleculeDatapoint \<times> 'f world" where
  "recreate_mask d w =
     (if \<not> bert_pretraining d
      then (Some (Exception ''Cannot recreate mask without bert_pretraining on.''), d, w)
      else
        (case vocab_targets d of
           None \<Rightarrow> (Some (AttributeError ''vocab_targets''), d, w)
         | Some vt \<Rightarrow>
             (let num_targets = length vt in
              case bert_mask_type d of
                None \<Rightarrow> (Some (AttributeError ''bert_mask_type''), d, w)
              | Some ty \<Rightarrow>
                  if ty = ''cluster'' then
                    (case mask_cluster (bert_mask_prob d) (nb_indices d) num_targets w of
                       (r, m, w1) \<Rightarrow> (r, d\<lparr>mask := Some m\<rparr>, w1))
                  else if ty = ''correlation'' then
                    (case mask_correlation (bert_mask_prob d) (nb_indices d) num_targets w of
                       (Inl e, w1) \<Rightarrow> (Some e, d, w1)
                     | (Inr (r, m), w1) \<Rightarrow> (r, d\<lparr>mask := Some m\<rparr>, w1))
                  else if ty = ''random'' then
                    (case mask_random (bert_mask_prob d) num_targets w of
                       (Inl e, w1) \<Rightarrow> (Some e, d, w1)
                     | (Inr (r, m), w1) \<Rightarrow> (r, d\<lparr>mask := Some m\<rparr>, w1))
                  else (Some (ValueError (''bert_mask_type '' @ [CHR 0x22] @ ty @ [CHR 0x22]
                                          @ '' not supported.'')), d, w))))"

text \<open>\<^verbatim>\<open>bert_init\<close>, lines 99 to 104.\<close>

definition bert_init ::
    "('f::linordered_field) MoleculeDatapoint \<Rightarrow> 'f Namespace \<Rightarrow> 'f world
       \<Rightarrow> error option \<times> 'f MoleculeDatapoint \<times> 'f world" where
  "bert_init d args w =
     (if \<not> bert_pretraining d
      then (Some (Exception ''Should not do this unless using bert_pretraining.''), d, w)
      else
        (case vocab args of
           None \<Rightarrow> (Some (AttributeError ''vocab''), d, w)
         | Some v \<Rightarrow>
             (case smiles2indices v (smiles d) of
                Inl e \<Rightarrow> (Some e, d, w)
              | Inr (vt, nb) \<Rightarrow>
                  recreate_mask (d\<lparr>vocab_targets := Some vt, nb_indices := Some nb\<rparr>) w)))"

definition set_targets :: "'f MoleculeDatapoint \<Rightarrow> 'f targets \<Rightarrow> 'f MoleculeDatapoint" where
  "set_targets d t = d\<lparr>targets := t\<rparr>"

definition bert_targets ::
    "'f MoleculeDatapoint \<Rightarrow> error + ('f ndarray option \<times> int list)" where
  "bert_targets d =
     (case vocab_targets d of
        None \<Rightarrow> Inl (AttributeError ''vocab_targets'')
      | Some vt \<Rightarrow> Inr (features d, vt))"

section \<open>MoleculeDataset\<close>

text \<open>
  The scaler is an object of \<^verbatim>\<open>chemprop/data/scaler.py\<close>, which is not part of this module;
  its type is a parameter.
\<close>

record ('f, 'sc) MoleculeDataset =
  data :: "'f MoleculeDatapoint list"
  ds_bert_pretraining :: bool
  features_size :: "nat option"
  scaler :: "'sc option"

text \<open>Lines 173 to 177. \<^verbatim>\<open>len(self.data[0].features)\<close> raises on an unsized array.\<close>

definition MoleculeDataset_init ::
    "'f MoleculeDatapoint list \<Rightarrow> error + ('f, 'sc) MoleculeDataset" where
  "MoleculeDataset_init ds =
     (case (case ds of
              [] \<Rightarrow> Inr None
            | d # rest \<Rightarrow>
                (case features d of
                   None \<Rightarrow> Inr None
                 | Some a \<Rightarrow> map_sum id Some (ndarray_len a))) of
        Inl e \<Rightarrow> Inl e
      | Inr fs \<Rightarrow>
          Inr \<lparr> data = ds,
                ds_bert_pretraining = (case ds of [] \<Rightarrow> False | d # rest \<Rightarrow> bert_pretraining d),
                features_size = fs,
                scaler = None \<rparr>)"

definition dataset_len :: "('f, 'sc) MoleculeDataset \<Rightarrow> nat" where
  "dataset_len ds = length (data ds)"

text \<open>Lines 237 to 241: \<^verbatim>\<open>[m for d in self.data for m in d.mask]\<close>.\<close>

fun concat_masks :: "'f MoleculeDatapoint list \<Rightarrow> error + nat list" where
  "concat_masks [] = Inr []"
| "concat_masks (d # rest) =
     (case mask d of
        None \<Rightarrow> Inl (AttributeError ''mask'')
      | Some m \<Rightarrow> (case concat_masks rest of Inl e \<Rightarrow> Inl e | Inr ms \<Rightarrow> Inr (m @ ms)))"

definition dataset_mask :: "('f, 'sc) MoleculeDataset \<Rightarrow> error + nat list" where
  "dataset_mask ds =
     (if \<not> ds_bert_pretraining ds
      then Inl (Exception ''Mask is undefined without bert_pretraining on.'')
      else concat_masks (data ds))"

text \<open>
  Lines 250 to 251: \<^verbatim>\<open>for d in self.data: d.recreate_mask()\<close>. The first exception ends
  the loop; the datapoints before it keep their new masks.
\<close>

fun recreate_masks ::
    "('f::linordered_field) MoleculeDatapoint list \<Rightarrow> 'f world
       \<Rightarrow> error option \<times> 'f MoleculeDatapoint list \<times> 'f world" where
  "recreate_masks [] w = (None, [], w)"
| "recreate_masks (d # rest) w =
     (case recreate_mask d w of
        (Some e, d', w') \<Rightarrow> (Some e, d' # rest, w')
      | (None, d', w') \<Rightarrow>
          (case recreate_masks rest w' of (r, rest', w'') \<Rightarrow> (r, d' # rest', w'')))"

text \<open>
  \<^verbatim>\<open>shuffle\<close>, lines 243 to 251. \<open>seed_stream\<close> is the generator's expansion of a seed.
\<close>

definition shuffle ::
    "(int \<Rightarrow> nat stream) \<Rightarrow> int option \<Rightarrow> (('f::linordered_field), 'sc) MoleculeDataset
       \<Rightarrow> 'f world \<Rightarrow> error option \<times> ('f, 'sc) MoleculeDataset \<times> 'f world" where
  "shuffle seed_stream seed ds w =
     (let w1 = (case seed of None \<Rightarrow> w | Some s \<Rightarrow> random_seed seed_stream s w) in
      case random_shuffle (data ds) w1 of
        (xs, w2) \<Rightarrow>
          if ds_bert_pretraining ds then
            (case recreate_masks xs w2 of (r, xs', w3) \<Rightarrow> (r, ds\<lparr>data := xs'\<rparr>, w3))
          else (None, ds\<lparr>data := xs\<rparr>, w2))"

text \<open>
  \<^verbatim>\<open>chunk\<close>, lines 253 to 260. The quotient \<^verbatim>\<open>len(self.data) / num_chunks\<close> is exact here;
  the floating-point quotient has the same ceiling for every length below \<open>2 ^ 53\<close>.
\<close>

fun build_chunks ::
    "'f MoleculeDatapoint list \<Rightarrow> int \<Rightarrow> int list \<Rightarrow> error + ('f, 'sc) MoleculeDataset list" where
  "build_chunks xs chunk_len [] = Inr []"
| "build_chunks xs chunk_len (i # rest) =
     (case MoleculeDataset_init (slice_py xs (i * chunk_len) ((i + 1) * chunk_len)) of
        Inl e \<Rightarrow> Inl e
      | Inr c \<Rightarrow>
          (case build_chunks xs chunk_len rest of
             Inl e \<Rightarrow> Inl e
           | Inr cs \<Rightarrow> Inr (c # cs)))"

definition range_py :: "int \<Rightarrow> int list" where
  "range_py n = map int [0..<nat n]"

definition chunk ::
    "(int \<Rightarrow> nat stream) \<Rightarrow> int \<Rightarrow> int option \<Rightarrow> (('f::linordered_field), 'sc) MoleculeDataset
       \<Rightarrow> 'f world
       \<Rightarrow> (error + ('f, 'sc) MoleculeDataset list) \<times> ('f, 'sc) MoleculeDataset \<times> 'f world" where
  "chunk seed_stream num_chunks seed ds w =
     (case shuffle seed_stream seed ds w of
        (Some e, ds1, w1) \<Rightarrow> (Inl e, ds1, w1)
      | (None, ds1, w1) \<Rightarrow>
          if num_chunks = 0 then (Inl ZeroDivisionError, ds1, w1)
          else
            (let chunk_len = \<lceil>(of_nat (length (data ds1)) :: rat) / of_int num_chunks\<rceil>
             in (build_chunks (data ds1) chunk_len (range_py num_chunks), ds1, w1)))"

text \<open>Lines 282 to 285.\<close>

definition dataset_set_targets ::
    "('f, 'sc) MoleculeDataset \<Rightarrow> 'f targets list \<Rightarrow> error option \<times> ('f, 'sc) MoleculeDataset" where
  "dataset_set_targets ds ts =
     (if length (data ds) \<noteq> length ts then (Some AssertionError, ds)
      else (None, ds\<lparr>data := map2 set_targets (data ds) ts\<rparr>))"

section \<open>Example data\<close>

text \<open>
  Concrete inputs on which the theorems below are exercised: a source of randomness whose
  raw draws are all zero, collaborators that return fixed vectors, a supervised and a
  self-supervised configuration, and the datapoints built from the record
  \<^verbatim>\<open>["CCO", "0.5", "", "1.2"]\<close>. In the self-supervised datapoint the three atoms form a
  chain: atom 0 is bonded to atom 1, atom 1 to atoms 0 and 2.
\<close>

definition example_world :: "rat world" where
  "example_world =
     \<lparr> py_random = sconst 0, np_uniform = sconst 0, np_integers = sconst 0,
       set_order = sconst 0 \<rparr>"

definition example_externals :: "rat externals" where
  "example_externals =
     \<lparr> morgan_fingerprint = (\<lambda>s use_counts. Inr [1, 0]),
       rdkit_2d_features = (\<lambda>s. Inr [1 / 2]),
       float_py = (\<lambda>s. if s = ''0.5'' then Inr (1 / 2)
                        else if s = ''1.2'' then Inr (6 / 5)
                        else Inl (ValueError ''could not convert string to float'')) \<rparr>"

definition example_vocab :: Vocab where
  "example_vocab = \<lparr> smiles2indices = (\<lambda>s. Inr ([5, 5, 7], [[1], [0, 2], [1]])) \<rparr>"

definition example_args :: "string \<Rightarrow> string \<Rightarrow> rat Namespace" where
  "example_args ty policy =
     \<lparr> features_generator = None, predict_features = False, sparse = False,
       dataset_type = ty, args_bert_mask_prob = 3 / 20, args_bert_mask_type = policy,
       vocab = Some example_vocab \<rparr>"

definition example_datapoint :: "rat MoleculeDatapoint" where
  "example_datapoint =
     \<lparr> bert_pretraining = False, bert_mask_prob = Some (3 / 20),
       bert_mask_type = Some ''cluster'', compound_name = None, smiles = ''CCO'',
       features = None, num_tasks = 3, targets = TList [Some (1 / 2), None, Some (6 / 5)],
       vocab_targets = None, nb_indices = None, mask = None \<rparr>"

definition example_bert_datapoint :: "string \<Rightarrow> rat MoleculeDatapoint" where
  "example_bert_datapoint policy =
     \<lparr> bert_pretraining = True, bert_mask_prob = Some (3 / 20),
       bert_mask_type = Some policy, compound_name = None, smiles = ''CCO'',
       features = None, num_tasks = 1, targets = TList [None],
       vocab_targets = Some [5, 5, 7], nb_indices = Some [[1], [0, 2], [1]], mask = None \<rparr>"

definition example_dataset :: "(rat, unit) MoleculeDataset" where
  "example_dataset =
     \<lparr> data = [example_datapoint, example_datapoint\<lparr>smiles := ''CC''\<rparr>,
               example_datapoint\<lparr>smiles := ''C''\<rparr>],
       ds_bert_pretraining = False, features_size = None, scaler = None \<rparr>"

definition example_seed_stream :: "int \<Rightarrow> nat stream" where
  "example_seed_stream seed = siterate Suc (nat seed)"

section \<open>Properties of SparseNoneArray\<close>

lemma map_of_enumerate_py:
  "map_of (filter (\<lambda>(i, x). x \<noteq> None) (enumerate_py xs)) i =
     (if 0 \<le> i \<and> i < int (length xs) \<and> xs ! nat i \<noteq> None then Some (xs ! nat i) else None)"
proof (induction xs arbitrary: i rule: rev_induct)
  case Nil
  show ?case by (simp add: enumerate_py_def)
next
  case (snoc x xs)
  have e: "enumerate_py (xs @ [x]) = enumerate_py xs @ [(int (length xs), x)]"
    by (simp add: enumerate_py_def enumerate_append_eq)
  show ?case
  proof (cases "i = int (length xs)")
    case True
    then show ?thesis
      using snoc.IH [of i] by (simp add: e map_add_def split: option.splits)
  next
    case False
    then show ?thesis
      using snoc.IH [of i] by (auto simp: e map_add_def nth_append split: option.splits)
  qed
qed

text \<open>
  Claim C3, as amended. A lookup at an index \<open>i\<close> with \<open>i \<ge> length\<close> raises \<^verbatim>\<open>IndexError\<close>.
  A lookup at a negative index does not raise: the guard of \<^verbatim>\<open>__getitem__\<close> tests the upper
  bound only, the dictionary has no negative key, and the default \<^verbatim>\<open>None\<close> is returned.
\<close>

theorem getitem_bounds:
  "(int (sna_length a) \<le> i \<longrightarrow> fst (SparseNoneArray_getitem a i) = Inl IndexError) \<and>
   (i < 0 \<longrightarrow> fst (SparseNoneArray_getitem (SparseNoneArray_init values) i) = Inr None)"
  by (simp add: SparseNoneArray_getitem_def SparseNoneArray_init_def map_of_enumerate_py
           del: not_None_eq)

theorem getitem_bounds_witness:
  "int (sna_length (SparseNoneArray_init [Some (1::rat), None])) \<le> 2 \<and>
   fst (SparseNoneArray_getitem (SparseNoneArray_init [Some (1::rat), None]) 2) = Inl IndexError \<and>
   (- 1 :: int) < 0 \<and>
   fst (SparseNoneArray_getitem (SparseNoneArray_init [Some (1::rat), None]) (- 1)) = Inr None"
  using getitem_bounds [of "SparseNoneArray_init [Some (1::rat), None]" 2 "[]"]
        getitem_bounds [of "SparseNoneArray_init []" "- 1" "[Some (1::rat), None]"]
  by (simp add: SparseNoneArray_init_def del: not_None_eq)

text \<open>
  The claim as it was stated fails at index \<open>-1\<close> of the array built from \<^verbatim>\<open>[1.0]\<close>: the
  lookup returns instead of raising.
\<close>

theorem getitem_negative_counterexample:
  "fst (SparseNoneArray_getitem (SparseNoneArray_init [Some (1::rat)]) (- 1)) \<noteq> Inl IndexError"
  by (simp add: SparseNoneArray_getitem_def SparseNoneArray_init_def enumerate_py_def)

text \<open>
  Claim C4. For a list \<open>values\<close> of optional floats and an index \<open>0 \<le> i < len(values)\<close>, the
  array built from \<open>values\<close> returns \<open>values[i]\<close> at \<open>i\<close>: the stored float where there is
  one, \<^verbatim>\<open>None\<close> where the entry is \<^verbatim>\<open>None\<close>.
\<close>

theorem getitem_init:
  "0 \<le> i \<Longrightarrow> i < int (length values) \<Longrightarrow>
   fst (SparseNoneArray_getitem (SparseNoneArray_init values) i) = Inr (values ! nat i)"
  by (simp add: SparseNoneArray_getitem_def SparseNoneArray_init_def map_of_enumerate_py
           del: not_None_eq)

theorem getitem_init_witness:
  "fst (SparseNoneArray_getitem (SparseNoneArray_init [Some (1/2::rat), None, Some (6/5)]) 0)
     = Inr (Some (1/2)) \<and>
   fst (SparseNoneArray_getitem (SparseNoneArray_init [Some (1/2::rat), None, Some (6/5)]) 1)
     = Inr None"
  using getitem_init [of 0 "[Some (1/2::rat), None, Some (6/5)]"]
        getitem_init [of 1 "[Some (1/2::rat), None, Some (6/5)]"]
  by simp

section \<open>Construction of the example data\<close>

text \<open>
  The record \<^verbatim>\<open>["CCO", "0.5", "", "1.2"]\<close> without a compound name gives the targets
  \<^verbatim>\<open>[0.5, None, 1.2]\<close> and three tasks; in self-supervised mode it gives the placeholder
  target and one task.
\<close>

lemma example_datapoint_init:
  "MoleculeDatapoint_init example_externals [''CCO'', ''0.5'', '''', ''1.2'']
     (Some (example_args ''regression'' ''cluster'')) None False = Inr example_datapoint"
  by (simp add: MoleculeDatapoint_init_def split_line_def init_targets_def example_args_def
        example_externals_def example_datapoint_def targets_len_def dense_targets_def)

lemma example_bert_datapoint_init:
  "MoleculeDatapoint_init example_externals [''CCO'', ''0.5'', '''', ''1.2'']
     (Some (example_args ''bert_pretraining'' policy)) None False
   = Inr ((example_bert_datapoint policy)\<lparr>vocab_targets := None, nb_indices := None\<rparr>)"
  by (simp add: MoleculeDatapoint_init_def split_line_def init_targets_def example_args_def
        example_externals_def example_bert_datapoint_def targets_len_def dense_targets_def)

section \<open>Errors of the self-supervised operations\<close>

text \<open>
  Claim C7. When self-supervised mode is not active, \<^verbatim>\<open>bert_init\<close> and \<^verbatim>\<open>recreate_mask\<close> of
  a datapoint and \<^verbatim>\<open>mask\<close> of a dataset raise their precondition error, with the object
  unchanged. Nothing catches it: the loop over the datapoints of a dataset ends with the
  same exception.
\<close>

theorem self_supervised_only:
  "(\<not> bert_pretraining d \<longrightarrow>
      bert_init d args w =
        (Some (Exception ''Should not do this unless using bert_pretraining.''), d, w) \<and>
      recreate_mask d w =
        (Some (Exception ''Cannot recreate mask without bert_pretraining on.''), d, w) \<and>
      recreate_masks (d # rest) w =
        (Some (Exception ''Cannot recreate mask without bert_pretraining on.''), d # rest, w)) \<and>
   (\<not> ds_bert_pretraining ds \<longrightarrow>
      dataset_mask ds = Inl (Exception ''Mask is undefined without bert_pretraining on.''))"
  by (simp add: bert_init_def recreate_mask_def dataset_mask_def)

theorem self_supervised_only_witness:
  "\<not> bert_pretraining example_datapoint \<and>
   fst (bert_init example_datapoint (example_args ''regression'' ''cluster'') example_world)
     = Some (Exception ''Should not do this unless using bert_pretraining.'') \<and>
   fst (recreate_mask example_datapoint example_world)
     = Some (Exception ''Cannot recreate mask without bert_pretraining on.'') \<and>
   (\<exists>ds :: (rat, unit) MoleculeDataset.
      MoleculeDataset_init [example_datapoint] = Inr ds \<and> \<not> ds_bert_pretraining ds \<and>
      dataset_mask ds = Inl (Exception ''Mask is undefined without bert_pretraining on.''))"
  using self_supervised_only [of example_datapoint "example_args ''regression'' ''cluster''"
          example_world "[]"
          "\<lparr>data = [example_datapoint], ds_bert_pretraining = False, features_size = None,
            scaler = None :: unit option\<rparr>"]
  by (simp add: example_datapoint_def MoleculeDataset_init_def)

lemma generate_features_append:
  "generate_features ext smi (pre @ rest) acc =
     (case generate_features ext smi pre acc of
        Inl e \<Rightarrow> Inl e
      | Inr acc' \<Rightarrow> generate_features ext smi rest acc')"
  by (induction pre arbitrary: acc) (auto split: sum.splits)

text \<open>
  Claim C8. When the construction of a datapoint reaches a generator name \<open>fg\<close> outside
  \<^verbatim>\<open>morgan\<close>, \<^verbatim>\<open>morgan_count\<close>, \<^verbatim>\<open>rdkit_2d\<close> (no features were loaded, the line has its
  SMILES string, the generators named before \<open>fg\<close> returned), it raises \<^verbatim>\<open>ValueError\<close>
  with the message \<^verbatim>\<open>features_generator type "fg" not supported.\<close>. When \<^verbatim>\<open>recreate_mask\<close>
  of an initialised self-supervised datapoint finds a policy name \<open>ty\<close> outside \<^verbatim>\<open>cluster\<close>,
  \<^verbatim>\<open>correlation\<close>, \<^verbatim>\<open>random\<close>, it raises \<^verbatim>\<open>ValueError\<close> with the message
  \<^verbatim>\<open>bert_mask_type "ty" not supported.\<close>.
\<close>

theorem unsupported_names:
  "(args = Some a \<and> features_generator a = Some (pre @ fg # post) \<and>
    generate_features ext smi pre [] = Inr acc \<and>
    fg \<noteq> ''morgan'' \<and> fg \<noteq> ''morgan_count'' \<and> fg \<noteq> ''rdkit_2d'' \<and>
    split_line use_compound_names line = Inr (name, smi, cells) \<longrightarrow>
      MoleculeDatapoint_init ext line args None use_compound_names =
        Inl (ValueError (''features_generator type '' @ [CHR 0x22] @ fg @ [CHR 0x22]
                         @ '' not supported.''))) \<and>
   (bert_pretraining d \<and> vocab_targets d = Some vt \<and> bert_mask_type d = Some ty \<and>
    ty \<noteq> ''cluster'' \<and> ty \<noteq> ''correlation'' \<and> ty \<noteq> ''random'' \<longrightarrow>
      recreate_mask d w =
        (Some (ValueError (''bert_mask_type '' @ [CHR 0x22] @ ty @ [CHR 0x22]
                           @ '' not supported.'')), d, w))"
  by (simp add: MoleculeDatapoint_init_def recreate_mask_def generate_features_append)

theorem unsupported_names_witness:
  "MoleculeDatapoint_init example_externals [''name'', ''CCO'', ''0.5'']
     (Some ((example_args ''regression'' ''cluster'')
              \<lparr>features_generator := Some [''morgan'', ''ecfp'', ''rdkit_2d'']\<rparr>)) None True
     = Inl (ValueError (''features_generator type '' @ [CHR 0x22] @ ''ecfp'' @ [CHR 0x22]
                         @ '' not supported.'')) \<and>
   fst (recreate_mask (example_bert_datapoint ''blocks'') example_world)
     = Some (ValueError (''bert_mask_type '' @ [CHR 0x22] @ ''blocks'' @ [CHR 0x22]
                         @ '' not supported.''))"
  using unsupported_names [of
          "Some ((example_args ''regression'' ''cluster'')
              \<lparr>features_generator := Some [''morgan'', ''ecfp'', ''rdkit_2d'']\<rparr>)"
          "(example_args ''regression'' ''cluster'')
              \<lparr>features_generator := Some [''morgan'', ''ecfp'', ''rdkit_2d'']\<rparr>"
          "[''morgan'']" "''ecfp''" "[''rdkit_2d'']" example_externals "''CCO''" "[1, 0]"
          True "[''name'', ''CCO'', ''0.5'']" "Some ''name''" "[''0.5'']"
          "example_bert_datapoint ''blocks''" "[5, 5, 7]" "''blocks''" example_world]
  by (simp add: example_args_def example_externals_def split_line_def
        example_bert_datapoint_def)

section \<open>The number of tasks\<close>

lemma sparse_targets_len:
  "targets_len (dense_targets t) = Inr n \<Longrightarrow> sparse_targets t = Inr s \<Longrightarrow> targets_len s = Inr n"
  by (cases t)
     (auto simp: targets_len_def dense_targets_def sparse_targets_def SparseNoneArray_len_def
                 SparseNoneArray_init_def ndarray_len_def ndarray_iter_def
           split: list.splits sum.splits)

lemma recreate_mask_fields:
  "(fst (snd (recreate_mask d w)))\<lparr>mask := x\<rparr> = d\<lparr>mask := x\<rparr>"
  unfolding recreate_mask_def
  by (simp add: Let_def split: option.splits prod.splits sum.splits)

lemma init_targets_len:
  assumes "init_targets ext args feats cells = Inr (n, t)"
  shows "targets_len t = Inr n"
proof (cases "case args of None \<Rightarrow> False
              | Some a \<Rightarrow> dataset_type a = ''unsupervised'' \<or> dataset_type a = ''bert_pretraining''")
  case True
  then have "init_targets ext args feats cells = Inr (1, TList [None])"
    by (simp add: init_targets_def)
  with assms have "n = 1" "t = TList [None]" by simp_all
  then show ?thesis by (simp add: targets_len_def)
next
  case False
  with assms obtain raw k where
    len: "targets_len (dense_targets raw) = Inr k" and
    t: "(if (case args of None \<Rightarrow> False | Some a \<Rightarrow> sparse a)
         then map_sum id (\<lambda>s. (k, s)) (sparse_targets raw)
         else Inr (k, dense_targets raw)) = Inr (n, t)"
    by (auto simp: init_targets_def split: sum.splits)
  show ?thesis
  proof (cases "case args of None \<Rightarrow> False | Some a \<Rightarrow> sparse a")
    case True
    with t obtain s where "sparse_targets raw = Inr s" "s = t" "k = n"
      by (cases "sparse_targets raw") auto
    with len show ?thesis using sparse_targets_len by blast
  next
    case False
    with t len show ?thesis by auto
  qed
qed

lemma init_num_tasks:
  assumes "MoleculeDatapoint_init ext line args feats use_compound_names = Inr d"
  shows "\<exists>fs cells. init_targets ext args fs cells = Inr (num_tasks d, targets d)"
  using assms unfolding MoleculeDatapoint_init_def
  by (fastforce split: if_splits sum.splits prod.splits)

lemma recreate_mask_targets:
  "targets (fst (snd (recreate_mask d w))) = targets d \<and>
   num_tasks (fst (snd (recreate_mask d w))) = num_tasks d"
proof -
  have "targets ((fst (snd (recreate_mask d w)))\<lparr>mask := None\<rparr>) = targets (d\<lparr>mask := None\<rparr>)"
       "num_tasks ((fst (snd (recreate_mask d w)))\<lparr>mask := None\<rparr>) = num_tasks (d\<lparr>mask := None\<rparr>)"
    by (simp_all only: recreate_mask_fields)
  then show ?thesis by simp
qed

lemma bert_init_targets:
  "targets (fst (snd (bert_init d args w))) = targets d \<and>
   num_tasks (fst (snd (bert_init d args w))) = num_tasks d"
  unfolding bert_init_def
  by (simp add: recreate_mask_targets split: option.splits sum.splits prod.splits)

text \<open>
  Claim C5, as amended. A constructed datapoint has \<open>num_tasks = len(targets)\<close>, and both
  are \<open>1\<close> in the unsupervised and the self-supervised mode. \<^verbatim>\<open>recreate_mask\<close> and
  \<^verbatim>\<open>bert_init\<close> change neither field, so they keep the invariant. \<^verbatim>\<open>set_targets\<close> replaces
  the targets and leaves \<open>num_tasks\<close> as it was: the invariant holds afterwards exactly when
  the new targets have the old number of tasks as their length.
\<close>

theorem num_tasks_invariant:
  fixes d0 :: "('f::linordered_field) MoleculeDatapoint"
  shows
  "(MoleculeDatapoint_init ext line args feats use_compound_names = Inr d \<longrightarrow>
      targets_len (targets d) = Inr (num_tasks d) \<and>
      ((\<exists>a. args = Some a \<and>
            (dataset_type a = ''unsupervised'' \<or> dataset_type a = ''bert_pretraining''))
         \<longrightarrow> num_tasks d = 1)) \<and>
   (targets_len (targets d0) = Inr (num_tasks d0) \<longrightarrow>
      targets_len (targets (fst (snd (recreate_mask d0 w))))
        = Inr (num_tasks (fst (snd (recreate_mask d0 w)))) \<and>
      targets_len (targets (fst (snd (bert_init d0 a0 w))))
        = Inr (num_tasks (fst (snd (bert_init d0 a0 w))))) \<and>
   num_tasks (set_targets d0 t) = num_tasks d0 \<and> targets (set_targets d0 t) = t \<and>
   (targets_len (targets (set_targets d0 t)) = Inr (num_tasks (set_targets d0 t))
      \<longleftrightarrow> targets_len t = Inr (num_tasks d0))"
proof -
  have 1: "targets_len (targets d) = Inr (num_tasks d)"
    if "MoleculeDatapoint_init ext line args feats use_compound_names = Inr d"
    using init_num_tasks [OF that] init_targets_len by blast
  have 2: "num_tasks d = 1"
    if h: "MoleculeDatapoint_init ext line args feats use_compound_names = Inr d"
      and m: "args = Some a"
         "dataset_type a = ''unsupervised'' \<or> dataset_type a = ''bert_pretraining''" for a
  proof -
    obtain fs cells where "init_targets ext args fs cells = Inr (num_tasks d, targets d)"
      using init_num_tasks [OF h] by blast
    moreover have "init_targets ext args fs cells = Inr (1, TList [None])"
      using m by (auto simp: init_targets_def)
    ultimately show ?thesis by simp
  qed
  have 3: "num_tasks (set_targets d0 t) = num_tasks d0 \<and> targets (set_targets d0 t) = t"
    by (simp add: set_targets_def)
  show ?thesis
    using 1 2 3 by (simp add: recreate_mask_targets bert_init_targets) blast
qed

theorem num_tasks_invariant_witness:
  "MoleculeDatapoint_init example_externals [''CCO'', ''0.5'', '''', ''1.2'']
     (Some (example_args ''regression'' ''cluster'')) None False = Inr example_datapoint \<and>
   targets_len (targets example_datapoint) = Inr 3 \<and> num_tasks example_datapoint = 3 \<and>
   num_tasks (fst (snd (bert_init example_datapoint (example_args ''regression'' ''cluster'')
                          example_world))) = 3 \<and>
   targets_len (TList [None, None, Some (2::rat)]) = Inr (num_tasks example_datapoint) \<and>
   targets_len (targets (set_targets example_datapoint (TList [None, None, Some 2])))
     = Inr (num_tasks (set_targets example_datapoint (TList [None, None, Some 2])))"
  using num_tasks_invariant [of example_externals "[''CCO'', ''0.5'', '''', ''1.2'']"
          "Some (example_args ''regression'' ''cluster'')" None False example_datapoint
          example_datapoint example_world "example_args ''regression'' ''cluster''"
          "TList [None, None, Some 2]"]
        example_datapoint_init
  by (simp add: targets_len_def example_datapoint_def bert_init_def)

text \<open>
  The claim as it was stated fails on the datapoint built from \<^verbatim>\<open>["CCO", "0.5", "", "1.2"]\<close>:
  \<^verbatim>\<open>set_targets([1.0])\<close> leaves three tasks and one target.
\<close>

theorem set_targets_counterexample:
  "MoleculeDatapoint_init example_externals [''CCO'', ''0.5'', '''', ''1.2'']
     (Some (example_args ''regression'' ''cluster'')) None False = Inr example_datapoint \<and>
   targets_len (targets example_datapoint) = Inr (num_tasks example_datapoint) \<and>
   targets_len (targets (set_targets example_datapoint (TList [Some 1])))
     \<noteq> Inr (num_tasks (set_targets example_datapoint (TList [Some 1])))"
  by (simp add: MoleculeDatapoint_init_def split_line_def init_targets_def example_args_def
        example_externals_def example_datapoint_def targets_len_def dense_targets_def
        set_targets_def)

section \<open>Shuffling\<close>

lemma recreate_masks_forget:
  "map (\<lambda>d. d\<lparr>mask := None\<rparr>) (fst (snd (recreate_masks xs w))) = map (\<lambda>d. d\<lparr>mask := None\<rparr>) xs"
proof (induction xs arbitrary: w)
  case Nil
  show ?case by simp
next
  case (Cons d rest)
  obtain r d' w' where s: "recreate_mask d w = (r, d', w')"
    by (cases "recreate_mask d w") auto
  have d': "d'\<lparr>mask := None\<rparr> = d\<lparr>mask := None\<rparr>"
    using recreate_mask_fields [where d = d and w = w and x = None] s by simp
  show ?case
  proof (cases r)
    case None
    obtain r2 rest' w'' where t: "recreate_masks rest w' = (r2, rest', w'')"
      by (cases "recreate_masks rest w'") auto
    show ?thesis
      using None s d' t Cons.IH [of w'] by simp
  next
    case (Some e)
    then show ?thesis
      using s d' by simp
  qed
qed

lemma shuffle_order:
  "map (\<lambda>d. d\<lparr>mask := None\<rparr>) (data (fst (snd (shuffle seed_stream (Some seed) ds w)))) =
   map (\<lambda>d. d\<lparr>mask := None\<rparr>)
     (fst (shuffle_loop (length (data ds) - 1) (data ds) (seed_stream seed)))"
proof -
  obtain ys s where l: "shuffle_loop (length (data ds) - 1) (data ds) (seed_stream seed) = (ys, s)"
    by (cases "shuffle_loop (length (data ds) - 1) (data ds) (seed_stream seed)") auto
  have "data (fst (snd (shuffle seed_stream (Some seed) ds w))) =
          (if ds_bert_pretraining ds then fst (snd (recreate_masks ys (w\<lparr>py_random := s\<rparr>)))
           else ys)"
    by (simp add: shuffle_def random_shuffle_def random_seed_def l Let_def
             split: prod.splits del: One_nat_def)
  then show ?thesis
    using recreate_masks_forget [of ys "w\<lparr>py_random := s\<rparr>"]
    by (simp add: l del: One_nat_def)
qed

text \<open>
  Claim C9. Two runs of \<^verbatim>\<open>shuffle\<close> with the same explicit seed on the same dataset leave
  the datapoints in the same order, whatever the state of the two generators before
  each run: the seed fixes the draws of \<^verbatim>\<open>random.shuffle\<close>, and regenerating the masks,
  which may draw from the unseeded \<^verbatim>\<open>np.random\<close>, changes nothing of a datapoint but its
  mask.
\<close>

theorem shuffle_seed_deterministic:
  "map (\<lambda>d. d\<lparr>mask := None\<rparr>) (data (fst (snd (shuffle seed_stream (Some seed) ds w1)))) =
   map (\<lambda>d. d\<lparr>mask := None\<rparr>) (data (fst (snd (shuffle seed_stream (Some seed) ds w2))))"
  by (simp only: shuffle_order)

theorem shuffle_seed_deterministic_witness:
  "map smiles (data (fst (snd (shuffle example_seed_stream (Some 42) example_dataset
                                  example_world)))) = [''C'', ''CC'', ''CCO''] \<and>
   map (\<lambda>d. d\<lparr>mask := None\<rparr>)
     (data (fst (snd (shuffle example_seed_stream (Some 42) example_dataset example_world)))) =
   map (\<lambda>d. d\<lparr>mask := None\<rparr>)
     (data (fst (snd (shuffle example_seed_stream (Some 42) example_dataset
                        (example_world\<lparr>py_random := sconst 7, np_uniform := sconst (1 / 2)\<rparr>)))))"
proof -
  have m: "42 mod Suc (Suc (Suc 0)) = 0" "43 mod Suc (Suc 0) = Suc 0"
    unfolding numeral_2_eq_2 [symmetric] numeral_3_eq_3 [symmetric] by simp_all
  have "map smiles (data (fst (snd (shuffle example_seed_stream (Some 42) example_dataset
                                      example_world)))) = [''C'', ''CC'', ''CCO'']"
    by (simp add: shuffle_def random_seed_def random_shuffle_def example_dataset_def
          example_seed_stream_def example_datapoint_def Let_def m)
  then show ?thesis
    using shuffle_seed_deterministic [of example_seed_stream 42 example_dataset example_world
            "example_world\<lparr>py_random := sconst 7, np_uniform := sconst (1 / 2)\<rparr>"]
    by simp
qed

section \<open>Chunking\<close>

lemma shuffle_loop_length: "length (fst (shuffle_loop k xs s)) = length xs"
  by (induction k arbitrary: xs s) (simp_all add: Let_def)

lemma recreate_masks_length: "length (fst (snd (recreate_masks xs w))) = length xs"
  using arg_cong [OF recreate_masks_forget [of xs w], of length] by simp

lemma shuffle_length: "length (data (fst (snd (shuffle seed_stream seed ds w)))) = length (data ds)"
proof -
  obtain w1 where w1: "w1 = (case seed of None \<Rightarrow> w | Some s \<Rightarrow> random_seed seed_stream s w)"
    by simp
  obtain ys s where l: "shuffle_loop (length (data ds) - 1) (data ds) (py_random w1) = (ys, s)"
    by (cases "shuffle_loop (length (data ds) - 1) (data ds) (py_random w1)") auto
  have n: "length ys = length (data ds)"
    using shuffle_loop_length [of "length (data ds) - 1" "data ds" "py_random w1"] l by simp
  have "data (fst (snd (shuffle seed_stream seed ds w))) =
          (if ds_bert_pretraining ds then fst (snd (recreate_masks ys (w1\<lparr>py_random := s\<rparr>)))
           else ys)"
    by (simp add: shuffle_def random_shuffle_def w1 [symmetric] l Let_def
             split: prod.splits del: One_nat_def)
  then show ?thesis
    by (simp add: n recreate_masks_length)
qed

lemma build_chunks_data:
  "build_chunks xs chunk_len idx = Inr cs \<Longrightarrow>
   map data cs = map (\<lambda>i. slice_py xs (i * chunk_len) ((i + 1) * chunk_len)) idx"
proof (induction idx arbitrary: cs)
  case Nil
  then show ?case by simp
next
  case (Cons i rest)
  then show ?case
    by (auto simp: MoleculeDataset_init_def split: sum.splits)
qed

lemma slice_py_chunk:
  assumes "0 \<le> c"
  shows "slice_py xs (int i * c) ((int i + 1) * c) = take (nat c) (drop (i * nat c) xs)"
proof -
  have a: "nat (int i * c) = i * nat c"
    using assms by (simp add: nat_mult_distrib)
  have b: "nat ((int i + 1) * c) = i * nat c + nat c"
    using assms a by (simp add: distrib_right nat_add_distrib)
  have p: "\<not> int i * c < 0" "\<not> (int i + 1) * c < 0"
    using assms by (simp_all add: not_less)
  have lo: "slice_bound (length xs) (int i * c) = min (i * nat c) (length xs)"
    unfolding slice_bound_def using p(1) a by simp
  have hi: "slice_bound (length xs) ((int i + 1) * c) = min (i * nat c + nat c) (length xs)"
    unfolding slice_bound_def using p(2) b by simp
  show ?thesis
    unfolding slice_py_def Let_def lo hi
    by (cases "i * nat c \<le> length xs") (auto simp: min_def)
qed

lemma concat_chunks:
  "concat (map (\<lambda>i. take c (drop (i * c) xs)) [0..<n]) = take (n * c) xs"
proof (induction n)
  case 0
  show ?case by simp
next
  case (Suc n)
  have "take (n * c) xs @ take c (drop (n * c) xs) = take (n * c + c) xs"
    by (simp add: take_add)
  with Suc show ?case by (simp add: add.commute)
qed

lemma chunk_len_bounds:
  assumes "1 \<le> n"
  shows "0 \<le> \<lceil>(of_nat N :: rat) / of_int n\<rceil>"
    and "int N \<le> n * \<lceil>(of_nat N :: rat) / of_int n\<rceil>"
proof -
  have p: "(0::rat) < of_int n" using assms by simp
  have "(0::rat) \<le> of_nat N / of_int n" using p by simp
  then have "- 1 < (of_nat N :: rat) / of_int n" by linarith
  then show "0 \<le> \<lceil>(of_nat N :: rat) / of_int n\<rceil>"
    by (simp only: zero_le_ceiling)
  have "(of_nat N :: rat) \<le> of_int \<lceil>(of_nat N :: rat) / of_int n\<rceil> * of_int n"
    using iffD1 [OF pos_divide_le_eq [OF p] le_of_int_ceiling] .
  then have "(of_nat N :: rat) \<le> of_int n * of_int \<lceil>(of_nat N :: rat) / of_int n\<rceil>"
    by (simp only: mult.commute)
  then have "(of_int (int N) :: rat) \<le> of_int (n * \<lceil>(of_nat N :: rat) / of_int n\<rceil>)"
    by simp
  then show "int N \<le> n * \<lceil>(of_nat N :: rat) / of_int n\<rceil>"
    by (simp only: of_int_le_iff)
qed

text \<open>
  \<^verbatim>\<open>chunk\<close> returns on every dataset that is not self-supervised and whose feature arrays
  all have a length.
\<close>

lemma shuffle_loop_set: "k < length xs \<Longrightarrow> set (fst (shuffle_loop k xs s)) = set xs"
proof (induction k arbitrary: xs s)
  case 0
  show ?case by simp
next
  case (Suc k)
  have "shd s mod (Suc k + 1) < Suc k + 1"
    by (rule mod_less_divisor) simp
  then have j: "shd s mod (Suc k + 1) < length xs"
    using Suc.prems by linarith
  have "set (xs[Suc k := xs ! (shd s mod (Suc k + 1)),
               shd s mod (Suc k + 1) := xs ! Suc k]) = set xs"
    using set_swap [OF Suc.prems j] .
  moreover have "k < length (xs[Suc k := xs ! (shd s mod (Suc k + 1)),
                               shd s mod (Suc k + 1) := xs ! Suc k])"
    using Suc.prems by simp
  ultimately show ?case
    using Suc.IH [of "xs[Suc k := xs ! (shd s mod (Suc k + 1)),
                        shd s mod (Suc k + 1) := xs ! Suc k]" "stl s"]
    by (simp add: Let_def)
qed

lemma random_shuffle_set: "set (fst (random_shuffle xs w)) = set xs"
proof (cases xs)
  case Nil
  then show ?thesis by (simp add: random_shuffle_def)
next
  case (Cons x rest)
  then have "length xs - 1 < length xs" by simp
  from shuffle_loop_set [OF this, of "py_random w"] show ?thesis
    by (cases "shuffle_loop (length xs - 1) xs (py_random w)")
       (simp add: random_shuffle_def del: One_nat_def)
qed

lemma build_chunks_returns:
  fixes xs :: "'f MoleculeDatapoint list"
  assumes "\<forall>d \<in> set xs. \<forall>a. features d = Some a \<longrightarrow> shape a \<noteq> []"
  shows "\<exists>cs :: ('f, 'sc) MoleculeDataset list. build_chunks xs chunk_len idx = Inr cs"
proof (induction idx)
  case Nil
  show ?case by simp
next
  case (Cons i rest)
  define piece where "piece = slice_py xs (i * chunk_len) ((i + 1) * chunk_len)"
  have "set piece \<subseteq> set xs"
    unfolding piece_def slice_py_def Let_def
    by (meson set_take_subset set_drop_subset subset_trans)
  then have sized: "\<forall>d \<in> set piece. \<forall>a. features d = Some a \<longrightarrow> shape a \<noteq> []"
    using assms by blast
  have "\<exists>c :: ('f, 'sc) MoleculeDataset. MoleculeDataset_init piece = Inr c"
  proof (cases piece)
    case Nil
    then show ?thesis by (simp add: MoleculeDataset_init_def)
  next
    case (Cons d more)
    show ?thesis
    proof (cases "features d")
      case None
      then show ?thesis using Cons by (simp add: MoleculeDataset_init_def)
    next
      case (Some a)
      then have "shape a \<noteq> []" using sized Cons by simp
      then show ?thesis
        using Cons Some
        by (cases "shape a") (simp_all add: MoleculeDataset_init_def ndarray_len_def)
    qed
  qed
  then obtain c :: "('f, 'sc) MoleculeDataset" and cs :: "('f, 'sc) MoleculeDataset list"
    where "MoleculeDataset_init piece = Inr c"
    and "build_chunks xs chunk_len rest = Inr cs"
    using Cons.IH by blast
  then show ?case
    by (simp add: piece_def [symmetric])
qed

lemma chunk_returns:
  assumes "\<not> ds_bert_pretraining ds" and "num_chunks \<noteq> 0"
    and "\<forall>d \<in> set (data ds). \<forall>a. features d = Some a \<longrightarrow> shape a \<noteq> []"
  shows "\<exists>chunks ds' w'. chunk seed_stream num_chunks seed ds w = (Inr chunks, ds', w')"
proof -
  define w0 where "w0 = (case seed of None \<Rightarrow> w | Some s \<Rightarrow> random_seed seed_stream s w)"
  obtain xs w1 where r: "random_shuffle (data ds) w0 = (xs, w1)"
    by (cases "random_shuffle (data ds) w0") auto
  have s: "shuffle seed_stream seed ds w = (None, ds\<lparr>data := xs\<rparr>, w1)"
    using assms(1) by (simp add: shuffle_def w0_def [symmetric] r)
  have "set xs = set (data ds)"
    using random_shuffle_set [of "data ds" w0] r by simp
  then have "\<forall>d \<in> set xs. \<forall>a. features d = Some a \<longrightarrow> shape a \<noteq> []"
    using assms(3) by simp
  from build_chunks_returns [OF this] show ?thesis
    using assms(2) by (simp add: chunk_def s Let_def)
qed

text \<open>
  Claim C6. For a dataset of size \<open>N\<close> and \<open>num_chunks = n \<ge> 1\<close>, what \<^verbatim>\<open>chunk(n)\<close> returns
  is a list of exactly \<open>n\<close> datasets whose sizes sum to \<open>N\<close>, each of size at most
  \<open>\<lceil>N / n\<rceil>\<close>; the chunks, in order, are the shuffled sequence cut into pieces.
  (\<^verbatim>\<open>chunk\<close> returns unless the shuffle raises while it regenerates the masks of a
  self-supervised dataset, or a chunk starts with a datapoint whose feature array has
  no length; see \<open>chunk_returns\<close>.)
\<close>

theorem chunk_sizes:
  assumes "1 \<le> num_chunks"
    and "chunk seed_stream num_chunks seed ds w = (Inr chunks, ds', w')"
  shows "length chunks = nat num_chunks \<and>
         sum_list (map dataset_len chunks) = dataset_len ds \<and>
         (\<forall>c \<in> set chunks.
            int (dataset_len c) \<le> \<lceil>(of_nat (dataset_len ds) :: rat) / of_int num_chunks\<rceil>) \<and>
         concat (map data chunks) = data ds'"
proof -
  define cl where "cl = \<lceil>(of_nat (length (data ds)) :: rat) / of_int num_chunks\<rceil>"
  obtain r ds1 w1 where s: "shuffle seed_stream seed ds w = (r, ds1, w1)"
    by (cases "shuffle seed_stream seed ds w") auto
  have len: "length (data ds1) = length (data ds)"
    using shuffle_length [of seed_stream seed ds w] s by simp
  have r: "r = None" and ds': "ds' = ds1"
    and b: "build_chunks (data ds1) cl (range_py num_chunks) = Inr chunks"
    using assms s by (auto simp: chunk_def cl_def len Let_def split: option.splits if_splits)
  have cl0: "0 \<le> cl" and cover: "int (length (data ds)) \<le> num_chunks * cl"
    unfolding cl_def using chunk_len_bounds [OF assms(1)] by blast+
  have pieces: "map data chunks =
                  map (\<lambda>i. take (nat cl) (drop (i * nat cl) (data ds1))) [0..<nat num_chunks]"
    using build_chunks_data [OF b] by (simp add: range_py_def o_def slice_py_chunk [OF cl0])
  have n: "length chunks = nat num_chunks"
    using arg_cong [OF pieces, of length] by simp
  have "int (length (data ds1)) \<le> int (nat num_chunks * nat cl)"
    using cover cl0 assms(1) len by (simp add: nat_mult_distrib [symmetric])
  then have "length (data ds1) \<le> nat num_chunks * nat cl"
    by (simp only: of_nat_le_iff)
  then have whole: "concat (map data chunks) = data ds1"
    by (simp add: pieces concat_chunks)
  have total: "sum_list (map dataset_len chunks) = dataset_len ds"
    using arg_cong [OF whole, of length]
    by (simp add: length_concat o_def dataset_len_def [abs_def] len)
  have each: "int (dataset_len c) \<le> cl" if "c \<in> set chunks" for c
  proof -
    have "data c \<in> set (map data chunks)" using that by simp
    then obtain i where "data c = take (nat cl) (drop (i * nat cl) (data ds1))"
      unfolding pieces by auto
    then have "length (data c) \<le> nat cl" by simp
    then show ?thesis using cl0 by (simp add: dataset_len_def)
  qed
  show ?thesis
    using n total each whole by (simp add: cl_def dataset_len_def ds')
qed

theorem chunk_sizes_witness:
  "(1::int) \<le> 2 \<and>
   (\<exists>chunks ds' w'.
      chunk example_seed_stream 2 (Some 42) example_dataset example_world = (Inr chunks, ds', w') \<and>
      map (map smiles \<circ> data) chunks = [[''C'', ''CC''], [''CCO'']] \<and>
      length chunks = 2 \<and>
      sum_list (map dataset_len chunks) = dataset_len example_dataset)"
proof -
  have m: "42 mod Suc (Suc (Suc 0)) = 0" "43 mod Suc (Suc 0) = Suc 0"
    unfolding numeral_2_eq_2 [symmetric] numeral_3_eq_3 [symmetric] by simp_all
  have s: "shuffle example_seed_stream (Some 42) example_dataset example_world =
             (None, example_dataset\<lparr>data := rev (data example_dataset)\<rparr>,
              example_world\<lparr>py_random := siterate Suc 44\<rparr>)"
    by (simp add: shuffle_def random_seed_def random_shuffle_def example_dataset_def
          example_seed_stream_def Let_def m)
  have c: "\<lceil>(3::rat) / 2\<rceil> = 2"
    by (simp add: ceiling_eq_iff)
  have r: "range_py 2 = [0, 1]"
    by (simp add: range_py_def upt_rec)
  have len: "length (data example_dataset) = 3"
    by (simp add: example_dataset_def)
  have e: "chunk example_seed_stream 2 (Some 42) example_dataset example_world =
             (build_chunks (rev (data example_dataset)) 2 [0, 1],
              example_dataset\<lparr>data := rev (data example_dataset)\<rparr>,
              example_world\<lparr>py_random := siterate Suc 44\<rparr>)"
    by (simp add: chunk_def s len c r del: build_chunks.simps)
  obtain chunks :: "(rat, unit) MoleculeDataset list" where
    b: "build_chunks (rev (data example_dataset)) 2 [0, 1] = Inr chunks"
    and n: "map (map smiles \<circ> data) chunks = [[''C'', ''CC''], [''CCO'']]"
    by (simp add: example_dataset_def example_datapoint_def MoleculeDataset_init_def
          slice_py_def slice_bound_def)
  show ?thesis
    using chunk_sizes [of 2, OF _ e [unfolded b]] e b n by simp
qed

section \<open>The cluster policy terminates\<close>

lemma cluster_body_atoms:
  assumes "cs_atoms st \<noteq> []"
  shows "set (cs_atoms (cluster_body p nb st)) \<subseteq>
           set (cs_atoms st) -
             {cs_atoms st ! (shd (set_order (cs_world st)) mod length (cs_atoms st))}"
  using assms
  by (auto simp: cluster_body_def set_pop_def np_random_random_def Let_def
           split: sum.splits option.splits prod.splits)

lemma cluster_body_length:
  assumes "cs_atoms st \<noteq> []"
  shows "length (cs_atoms (cluster_body p nb st)) < length (cs_atoms st)"
proof -
  define x where "x = cs_atoms st ! (shd (set_order (cs_world st)) mod length (cs_atoms st))"
  have "x \<in> set (cs_atoms st)"
    using assms by (simp add: x_def)
  then have r: "length (removeAll x (cs_atoms st)) < length (cs_atoms st)"
    by (simp add: length_removeAll_less)
  have f: "length (filter P (removeAll x (cs_atoms st))) < length (cs_atoms st)" for P
    using r le_less_trans [OF length_filter_le] by blast
  show ?thesis
    using assms r f
    by (simp add: cluster_body_def set_pop_def np_random_random_def Let_def x_def [symmetric]
             split: sum.splits option.splits prod.splits)
qed

lemma cluster_loop_iterates:
  "\<exists>k \<le> length (cs_atoms st).
     cluster_loop p nb st = (cluster_body p nb ^^ k) st \<and>
     (cs_atoms (cluster_loop p nb st) = [] \<or> cs_raised (cluster_loop p nb st) \<noteq> None)"
proof (induction p nb st rule: cluster_loop.induct)
  case (1 p nb st)
  show ?case
  proof (cases "cs_atoms st = [] \<or> cs_raised st \<noteq> None")
    case True
    then have "cluster_loop p nb st = st"
      by (simp add: cluster_loop.simps)
    with True show ?thesis
      by (intro exI [of _ 0]) simp
  next
    case False
    then have step: "cluster_loop p nb st = cluster_loop p nb (cluster_body p nb st)"
      by (subst cluster_loop.simps) simp
    from 1 [OF False] obtain k where
      k: "k \<le> length (cs_atoms (cluster_body p nb st))"
      and it: "cluster_loop p nb (cluster_body p nb st)
                 = (cluster_body p nb ^^ k) (cluster_body p nb st)"
      and ex: "cs_atoms (cluster_loop p nb (cluster_body p nb st)) = [] \<or>
               cs_raised (cluster_loop p nb (cluster_body p nb st)) \<noteq> None"
      by blast
    have "Suc k \<le> length (cs_atoms st)"
      using k cluster_body_length [of st p nb] False by simp
    moreover have "cluster_loop p nb st = (cluster_body p nb ^^ Suc k) st"
      using step it by (simp add: funpow_swap1)
    ultimately show ?thesis
      using ex step by (intro exI [of _ "Suc k"]) simp
  qed
qed

text \<open>
  Claim C10. The loop of the cluster policy terminates for every adjacency structure and
  every sequence of draws: an iteration started with atoms left removes the popped atom
  (and possibly more) from the set, so the set of unprocessed atoms strictly decreases;
  the loop is left, with the set empty or with an exception, after at most as many
  iterations as there were atoms.
\<close>

theorem cluster_loop_terminates:
  "(cs_atoms st \<noteq> [] \<longrightarrow>
      cs_atoms st ! (shd (set_order (cs_world st)) mod length (cs_atoms st))
        \<notin> set (cs_atoms (cluster_body p nb st)) \<and>
      set (cs_atoms (cluster_body p nb st)) \<subset> set (cs_atoms st)) \<and>
   (\<exists>k \<le> length (cs_atoms st).
      cluster_loop p nb st = (cluster_body p nb ^^ k) st \<and>
      (cs_atoms (cluster_loop p nb st) = [] \<or> cs_raised (cluster_loop p nb st) \<noteq> None))"
proof -
  have "cs_atoms st ! (shd (set_order (cs_world st)) mod length (cs_atoms st))
          \<notin> set (cs_atoms (cluster_body p nb st)) \<and>
        set (cs_atoms (cluster_body p nb st)) \<subset> set (cs_atoms st)"
    if "cs_atoms st \<noteq> []"
  proof -
    have "cs_atoms st ! (shd (set_order (cs_world st)) mod length (cs_atoms st))
            \<in> set (cs_atoms st)"
      using that by simp
    then show ?thesis
      using cluster_body_atoms [OF that, of p nb] by blast
  qed
  then show ?thesis
    using cluster_loop_iterates [of st p nb] by blast
qed

theorem cluster_loop_terminates_witness:
  "cs_atoms \<lparr>cs_mask = [1, 1, 1], cs_atoms = [0, 1, 2], cs_world = example_world,
              cs_raised = None\<rparr> \<noteq> [] \<and>
   cs_atoms (cluster_body (Some (3 / 20)) (Some [[1], [0, 2], [1]])
               \<lparr>cs_mask = [1, 1, 1], cs_atoms = [0, 1, 2], cs_world = example_world,
                cs_raised = None\<rparr>) = [2] \<and>
   cs_atoms (cluster_loop (Some (3 / 20)) (Some [[1], [0, 2], [1]])
               \<lparr>cs_mask = [1, 1, 1], cs_atoms = [0, 1, 2], cs_world = example_world,
                cs_raised = None\<rparr>) = [] \<and>
   cs_mask (cluster_loop (Some (3 / 20)) (Some [[1], [0, 2], [1]])
               \<lparr>cs_mask = [1, 1, 1], cs_atoms = [0, 1, 2], cs_world = example_world,
                cs_raised = None\<rparr>) = [0, 0, 0]"
  using cluster_loop_terminates
          [of "\<lparr>cs_mask = [1, 1, 1], cs_atoms = [0, 1, 2], cs_world = example_world,
                cs_raised = None\<rparr>" "Some (3 / 20)" "Some [[1], [0, 2], [1]]"]
  by (simp add: cluster_loop.simps cluster_body_def set_pop_def nb_getitem_def
        list_getitem_def norm_index_def np_random_random_def np_setitems_def
        example_world_def Let_def)

section \<open>Every mask hides something\<close>

lemma zero_in_mask:
  "\<forall>x \<in> set m. x \<le> (1::nat) \<Longrightarrow> sum_list m \<noteq> length m \<Longrightarrow> 0 \<in> set m"
proof (induction m)
  case Nil
  then show ?case by simp
next
  case (Cons x m)
  show ?case
  proof (cases "x = 0")
    case True
    then show ?thesis by simp
  next
    case False
    with Cons.prems(1) have "x = 1" by simp
    with Cons show ?thesis by simp
  qed
qed

lemma zero_stays: "(0::nat) \<in> set m \<Longrightarrow> 0 \<in> set (m[k := 0])"
  by (cases "k < length m") (simp_all add: set_update_memI list_update_beyond)

lemma fold_setitems_length:
  "length (fold (\<lambda>i acc. case norm_index n i of None \<Rightarrow> acc | Some k \<Rightarrow> acc[k := v]) idx acc)
     = length acc"
  by (induction idx arbitrary: acc) (simp_all split: option.splits)

lemma fold_setitems_bound:
  "\<forall>x \<in> set acc. x \<le> (1::nat) \<Longrightarrow>
   \<forall>x \<in> set (fold (\<lambda>i acc. case norm_index n i of None \<Rightarrow> acc | Some k \<Rightarrow> acc[k := 0])
                   idx acc). x \<le> 1"
proof (induction idx arbitrary: acc)
  case Nil
  then show ?case by simp
next
  case (Cons i idx)
  have "\<forall>x \<in> set (case norm_index n i of None \<Rightarrow> acc | Some k \<Rightarrow> acc[k := 0]). x \<le> 1"
    using Cons.prems set_update_subset_insert [of acc _ 0]
    by (auto split: option.splits)
  from Cons.IH [OF this] show ?case by simp
qed

lemma fold_setitems_zero:
  "(0::nat) \<in> set acc \<Longrightarrow>
   0 \<in> set (fold (\<lambda>i acc. case norm_index n i of None \<Rightarrow> acc | Some k \<Rightarrow> acc[k := 0]) idx acc)"
proof (induction idx arbitrary: acc)
  case Nil
  then show ?case by simp
next
  case (Cons i idx)
  have "0 \<in> set (case norm_index n i of None \<Rightarrow> acc | Some k \<Rightarrow> acc[k := 0])"
    using Cons.prems by (simp add: zero_stays split: option.splits)
  from Cons.IH [OF this] show ?case by simp
qed

lemma norm_index_less: "norm_index n i = Some k \<Longrightarrow> k < n"
  by (auto simp: norm_index_def split: if_splits)

lemma np_setitems_length: "np_setitems m idx v = Inr m' \<Longrightarrow> length m' = length m"
  by (auto simp: np_setitems_def fold_setitems_length split: if_splits)

lemma np_setitems_bound:
  "np_setitems m idx 0 = Inr m' \<Longrightarrow> \<forall>x \<in> set m. x \<le> (1::nat) \<Longrightarrow> \<forall>x \<in> set m'. x \<le> 1"
  using fold_setitems_bound [of m "length m" idx]
  by (auto simp: np_setitems_def split: if_splits)

lemma np_setitems_zero:
  assumes "np_setitems m (i # idx) (0::nat) = Inr m'"
  shows "0 \<in> set m'"
proof -
  from assms obtain k where k: "norm_index (length m) i = Some k"
    by (auto simp: np_setitems_def split: if_splits)
  then have "0 \<in> set (m[k := 0])"
    using norm_index_less [OF k] by (simp add: set_update_memI)
  from fold_setitems_zero [OF this, of "length m" idx] show ?thesis
    using assms k by (auto simp: np_setitems_def split: if_splits)
qed

lemma cluster_body_mask_cases:
  "cs_mask (cluster_body p nb st) = cs_mask st \<or>
   (\<exists>idx. np_setitems (cs_mask st) idx 0 = Inr (cs_mask (cluster_body p nb st)))"
proof -
  obtain a atoms1 w1 where pop: "set_pop (cs_atoms st) (cs_world st) = (a, atoms1, w1)"
    by (cases "set_pop (cs_atoms st) (cs_world st)") auto
  show ?thesis
  proof (cases a)
    case (Inl e)
    then show ?thesis
      unfolding cluster_body_def pop by simp
  next
    case (Inr atom)
    note a = this
    show ?thesis
    proof (cases "nb_getitem nb atom")
      case (Inl e)
      then show ?thesis
        unfolding cluster_body_def pop a by simp
    next
      case (Inr neighbors)
      note g = this
      show ?thesis
      proof (cases p)
        case None
        then show ?thesis
          unfolding cluster_body_def pop a prod.case sum.case g
          by (simp add: Let_def split: prod.splits)
      next
        case (Some prob)
        show ?thesis
        proof (cases "np_setitems (cs_mask st) (atom # neighbors) 0")
          case (Inl e)
          then show ?thesis
            unfolding cluster_body_def pop a prod.case sum.case g Some
            by (simp add: Let_def split: prod.splits)
        next
          case (Inr m)
          then show ?thesis
            unfolding cluster_body_def pop a prod.case sum.case g Some
            by (auto simp: Let_def split: prod.splits)
        qed
      qed
    qed
  qed
qed

lemma cluster_body_mask:
  "length (cs_mask (cluster_body p nb st)) = length (cs_mask st) \<and>
   ((\<forall>x \<in> set (cs_mask st). x \<le> 1) \<longrightarrow> (\<forall>x \<in> set (cs_mask (cluster_body p nb st)). x \<le> 1))"
proof (cases "cs_mask (cluster_body p nb st) = cs_mask st")
  case True
  then show ?thesis by simp
next
  case False
  then obtain idx where s: "np_setitems (cs_mask st) idx 0 = Inr (cs_mask (cluster_body p nb st))"
    using cluster_body_mask_cases [of p nb st] by blast
  show ?thesis
    using np_setitems_length [OF s] np_setitems_bound [OF s] by simp
qed

lemma cluster_loop_mask:
  "length (cs_mask (cluster_loop p nb st)) = length (cs_mask st) \<and>
   ((\<forall>x \<in> set (cs_mask st). x \<le> 1) \<longrightarrow> (\<forall>x \<in> set (cs_mask (cluster_loop p nb st)). x \<le> 1))"
proof (induction p nb st rule: cluster_loop.induct)
  case (1 p nb st)
  show ?case
  proof (cases "cs_atoms st = [] \<or> cs_raised st \<noteq> None")
    case True
    then have "cluster_loop p nb st = st"
      by (subst cluster_loop.simps) simp
    then show ?thesis by (simp only:) simp
  next
    case False
    then have step: "cluster_loop p nb st = cluster_loop p nb (cluster_body p nb st)"
      by (subst cluster_loop.simps) simp
    note ih = 1 [OF False]
    note body = cluster_body_mask [of p nb st]
    have l: "length (cs_mask (cluster_loop p nb (cluster_body p nb st))) = length (cs_mask st)"
      using ih body by (simp only:)
    have b: "\<forall>x \<in> set (cs_mask (cluster_loop p nb (cluster_body p nb st))). x \<le> 1"
      if "\<forall>x \<in> set (cs_mask st). x \<le> 1"
      using ih body that by blast
    show ?thesis
      unfolding step using l b by blast
  qed
qed

lemma ensure_cluster_zero:
  assumes "ensure_cluster nb m w = (None, m', w')" and "\<forall>x \<in> set m. x \<le> 1"
  shows "length m' = length m \<and> 0 \<in> set m' \<and> (\<forall>x \<in> set m'. x \<le> 1)"
proof (cases "sum_list m = length m")
  case False
  then have "m' = m"
    using assms(1) by (simp add: ensure_cluster_def)
  then show ?thesis
    using zero_in_mask [OF assms(2) False] assms(2) by simp
next
  case True
  obtain a w1 where d: "np_random_randint (length m) w = (a, w1)"
    by (cases "np_random_randint (length m) w") auto
  from assms(1) True d obtain atom where a: "a = Inr atom"
    by (cases a) (simp_all add: ensure_cluster_def)
  from assms(1) True d a obtain neighbors where n: "nb_getitem nb atom = Inr neighbors"
    by (cases "nb_getitem nb atom") (simp_all add: ensure_cluster_def)
  from assms(1) True d a n have s: "np_setitems m (atom # neighbors) 0 = Inr m'"
    by (cases "np_setitems m (atom # neighbors) 0") (simp_all add: ensure_cluster_def)
  show ?thesis
    using np_setitems_length [OF s] np_setitems_zero [OF s] np_setitems_bound [OF s assms(2)]
    by simp
qed

lemma ensure_one_zero:
  assumes "ensure_one m w = (None, m', w')" and "\<forall>x \<in> set m. x \<le> 1"
  shows "length m' = length m \<and> 0 \<in> set m' \<and> (\<forall>x \<in> set m'. x \<le> 1)"
proof (cases "sum_list m = length m")
  case False
  then have "m' = m"
    using assms(1) by (simp add: ensure_one_def)
  then show ?thesis
    using zero_in_mask [OF assms(2) False] assms(2) by simp
next
  case True
  obtain a w1 where d: "np_random_randint (length m) w = (a, w1)"
    by (cases "np_random_randint (length m) w") auto
  from assms(1) True d obtain i where a: "a = Inr i"
    by (cases a) (simp_all add: ensure_one_def)
  from assms(1) True d a obtain k where k: "norm_index (length m) i = Some k"
    by (cases "norm_index (length m) i") (simp_all add: ensure_one_def np_setitem_def)
  from assms(1) True d a k have m': "m' = m[k := 0]"
    by (simp add: ensure_one_def np_setitem_def)
  have "0 \<in> set m'"
    using norm_index_less [OF k] by (simp add: m' set_update_memI)
  moreover have "\<forall>x \<in> set m'. x \<le> 1"
    using assms(2) set_update_subset_insert [of m k 0] by (auto simp: m')
  ultimately show ?thesis by (simp add: m')
qed

lemma bernoulli_mask_shape:
  "bernoulli_mask p n w = (Inr m, w') \<Longrightarrow> length m = n \<and> (\<forall>x \<in> set m. x \<le> 1)"
  by (auto simp: bernoulli_mask_def np_random_rand_def split: option.splits)

lemma correlation_pass_cases:
  "fst (snd (correlation_pass nb m w)) = m \<or>
   (\<exists>i j k l. norm_index (length m) i = Some k \<and> norm_index (length m) j = Some l \<and>
      fst (snd (correlation_pass nb m w)) = m[l := m ! k])"
  unfolding correlation_pass_def np_getitem_def np_setitem_def
  by (simp split: prod.splits sum.splits option.splits) blast

lemma correlation_pass_shape:
  assumes "correlation_pass nb m w = (r, m', w')" and "\<forall>x \<in> set m. x \<le> (1::nat)"
  shows "length m' = length m \<and> (\<forall>x \<in> set m'. x \<le> 1)"
proof (cases "m' = m")
  case True
  then show ?thesis using assms(2) by simp
next
  case False
  then obtain i j k l where
    k: "norm_index (length m) i = Some k" and m': "m' = m[l := m ! k]"
    using correlation_pass_cases [of nb m w] assms(1) by auto
  have "m ! k \<le> 1"
    using assms(2) norm_index_less [OF k] by simp
  then have "\<forall>x \<in> set m'. x \<le> 1"
    using assms(2) set_update_subset_insert [of m l "m ! k"] by (auto simp: m')
  then show ?thesis by (simp add: m')
qed

lemma correlation_loop_shape:
  "correlation_loop k nb m w = (r, m', w') \<Longrightarrow> \<forall>x \<in> set m. x \<le> (1::nat) \<Longrightarrow>
   length m' = length m \<and> (\<forall>x \<in> set m'. x \<le> 1)"
proof (induction k arbitrary: m w)
  case 0
  then show ?case by simp
next
  case (Suc k)
  obtain r1 m1 w1 where p: "correlation_pass nb m w = (r1, m1, w1)"
    by (cases "correlation_pass nb m w") auto
  have s: "length m1 = length m \<and> (\<forall>x \<in> set m1. x \<le> 1)"
    using correlation_pass_shape [OF p Suc.prems(2)] .
  show ?case
  proof (cases r1)
    case None
    then have "correlation_loop k nb m1 w1 = (r, m', w')"
      using Suc.prems(1) p by simp
    from Suc.IH [OF this] s show ?thesis by simp
  next
    case (Some e)
    then have "m' = m1"
      using Suc.prems(1) p by simp
    with s show ?thesis by simp
  qed
qed

lemma mask_cluster_zero:
  assumes "mask_cluster p nb n w = (None, m, w')"
  shows "length m = n \<and> 0 \<in> set m \<and> (\<forall>x \<in> set m. x \<le> 1)"
proof -
  define st where
    "st = cluster_loop p nb
            \<lparr>cs_mask = replicate n 1, cs_atoms = map int [0..<n], cs_world = w, cs_raised = None\<rparr>"
  have shape: "length (cs_mask st) = n \<and> (\<forall>x \<in> set (cs_mask st). x \<le> 1)"
    using cluster_loop_mask
            [of p nb "\<lparr>cs_mask = replicate n 1, cs_atoms = map int [0..<n], cs_world = w,
                       cs_raised = None\<rparr>"]
    by (simp add: st_def)
  have e: "(case cs_raised st of
              Some e \<Rightarrow> (Some e, cs_mask st, cs_world st)
            | None \<Rightarrow> ensure_cluster nb (cs_mask st) (cs_world st)) = (None, m, w')"
    using assms unfolding mask_cluster_def Let_def st_def .
  then have r: "cs_raised st = None"
    by (cases "cs_raised st") simp_all
  with e have "ensure_cluster nb (cs_mask st) (cs_world st) = (None, m, w')"
    by simp
  from ensure_cluster_zero [OF this] shape show ?thesis by simp
qed

lemma mask_random_zero:
  assumes "mask_random p n w = (Inr (None, m), w')"
  shows "length m = n \<and> 0 \<in> set m \<and> (\<forall>x \<in> set m. x \<le> 1)"
proof -
  obtain a w1 where b: "bernoulli_mask p n w = (a, w1)"
    by (cases "bernoulli_mask p n w") auto
  from assms b obtain m0 where a: "a = Inr m0"
    by (cases a) (simp_all add: mask_random_def)
  obtain r m1 w2 where e: "ensure_one m0 w1 = (r, m1, w2)"
    by (cases "ensure_one m0 w1") auto
  from assms b a e have "r = None" "m1 = m"
    by (simp_all add: mask_random_def)
  with e have "ensure_one m0 w1 = (None, m, w2)" by simp
  from ensure_one_zero [OF this] bernoulli_mask_shape [OF b [unfolded a]]
  show ?thesis by simp
qed

lemma mask_correlation_zero:
  assumes "mask_correlation p nb n w = (Inr (None, m), w')"
  shows "length m = n \<and> 0 \<in> set m \<and> (\<forall>x \<in> set m. x \<le> 1)"
proof -
  obtain a w1 where b: "bernoulli_mask p n w = (a, w1)"
    by (cases "bernoulli_mask p n w") auto
  from assms b obtain m0 where a: "a = Inr m0"
    by (cases a) (simp_all add: mask_correlation_def)
  have s0: "length m0 = n \<and> (\<forall>x \<in> set m0. x \<le> 1)"
    using bernoulli_mask_shape [OF b [unfolded a]] .
  obtain r1 m1 w2 where l: "correlation_loop (length m0) nb m0 w1 = (r1, m1, w2)"
    by (cases "correlation_loop (length m0) nb m0 w1") auto
  have s1: "length m1 = n \<and> (\<forall>x \<in> set m1. x \<le> 1)"
    using correlation_loop_shape [OF l] s0 by simp
  from assms b a l have r1: "r1 = None"
    by (cases r1) (simp_all add: mask_correlation_def)
  obtain r m2 w3 where e: "ensure_one m1 w2 = (r, m2, w3)"
    by (cases "ensure_one m1 w2") auto
  from assms b a l r1 e have "r = None" "m2 = m"
    by (simp_all add: mask_correlation_def)
  with e have "ensure_one m1 w2 = (None, m, w3)" by simp
  from ensure_one_zero [OF this] s1 show ?thesis by simp
qed

text \<open>
  A call returns whenever the adjacency structure is well formed: it has an entry for
  every target, an atom has at most as many neighbours as there are targets, and every
  neighbour is a valid index. The lemmas below show that no step of the three policies
  raises under these conditions.
\<close>

lemma norm_index_valid:
  "- int n \<le> i \<Longrightarrow> i < int n \<Longrightarrow> norm_index n i \<noteq> None"
  by (simp add: norm_index_def)

lemma np_setitems_valid:
  "\<forall>i \<in> set idx. - int (length m) \<le> i \<and> i < int (length m) \<Longrightarrow>
   \<exists>m'. np_setitems m idx v = Inr m'"
  by (simp add: np_setitems_def list_all_iff norm_index_valid)

lemma nb_getitem_valid:
  "0 \<le> i \<Longrightarrow> i < int (length nb) \<Longrightarrow> nb_getitem (Some nb) i = Inr (nb ! nat i)"
  by (simp add: nb_getitem_def list_getitem_def norm_index_def)

lemma cluster_body_returns:
  assumes atoms: "cs_atoms st \<noteq> []" "\<forall>a \<in> set (cs_atoms st). 0 \<le> a \<and> a < int n"
    and len: "length (cs_mask st) = n" "n \<le> length nb"
    and nb: "\<forall>i < n. \<forall>j \<in> set (nb ! i). - int n \<le> j \<and> j < int n"
    and ok: "cs_raised st = None"
  shows "cs_raised (cluster_body (Some p) (Some nb) st) = None"
proof -
  define a where "a = cs_atoms st ! (shd (set_order (cs_world st)) mod length (cs_atoms st))"
  have "a \<in> set (cs_atoms st)"
    using atoms(1) by (simp add: a_def)
  then have a: "0 \<le> a" "a < int n"
    using atoms(2) by auto
  have pop: "set_pop (cs_atoms st) (cs_world st) =
               (Inr a, removeAll a (cs_atoms st),
                (cs_world st)\<lparr>set_order := stl (set_order (cs_world st))\<rparr>)"
    using atoms(1) by (simp add: set_pop_def a_def Let_def)
  have g: "nb_getitem (Some nb) a = Inr (nb ! nat a)"
    using a len(2) by (intro nb_getitem_valid) simp_all
  have "nat a < n" using a by simp
  then have "\<forall>i \<in> set (a # nb ! nat a). - int (length (cs_mask st)) \<le> i \<and> i < int (length (cs_mask st))"
    using nb a len(1) by auto
  from np_setitems_valid [OF this, of 0] obtain m' where
    s: "np_setitems (cs_mask st) (a # nb ! nat a) 0 = Inr m'" by blast
  show ?thesis
    unfolding cluster_body_def pop prod.case sum.case g Let_def
    by (simp add: np_random_random_def s ok)
qed

lemma cluster_loop_returns:
  assumes "\<forall>a \<in> set (cs_atoms st). 0 \<le> a \<and> a < int n"
    and "length (cs_mask st) = n" and "n \<le> length nb"
    and "\<forall>i < n. \<forall>j \<in> set (nb ! i). - int n \<le> j \<and> j < int n"
    and "cs_raised st = None"
  shows "cs_raised (cluster_loop (Some p) (Some nb) st) = None"
  using assms
proof (induction "Some p" "Some nb" st rule: cluster_loop.induct)
  case (1 st)
  show ?case
  proof (cases "cs_atoms st = []")
    case True
    then show ?thesis
      using "1.prems"(5) by (simp add: cluster_loop.simps)
  next
    case False
    then have go: "\<not> (cs_atoms st = [] \<or> cs_raised st \<noteq> None)"
      using "1.prems"(5) by simp
    then have step: "cluster_loop (Some p) (Some nb) st =
                       cluster_loop (Some p) (Some nb) (cluster_body (Some p) (Some nb) st)"
      by (subst cluster_loop.simps) simp
    have r: "cs_raised (cluster_body (Some p) (Some nb) st) = None"
      using cluster_body_returns [OF False "1.prems"(1,2,3,4,5)] .
    have a: "\<forall>a \<in> set (cs_atoms (cluster_body (Some p) (Some nb) st)). 0 \<le> a \<and> a < int n"
      using cluster_body_atoms [OF False, of "Some p" "Some nb"] "1.prems"(1) by blast
    have l: "length (cs_mask (cluster_body (Some p) (Some nb) st)) = n"
      using cluster_body_mask [of "Some p" "Some nb" st] "1.prems"(2) by simp
    show ?thesis
      using "1.hyps" [OF go a l "1.prems"(3,4) r] step by simp
  qed
qed

lemma ensure_cluster_returns:
  assumes "length m = n" and "0 < n" and "n \<le> length nb"
    and "\<forall>i < n. \<forall>j \<in> set (nb ! i). - int n \<le> j \<and> j < int n"
  shows "fst (ensure_cluster (Some nb) m w) = None"
proof (cases "sum_list m = length m")
  case False
  then show ?thesis by (simp add: ensure_cluster_def)
next
  case True
  define a where "a = int (shd (np_integers w) mod n)"
  have a: "0 \<le> a" "a < int n" "nat a < n"
    using assms(2) by (simp_all add: a_def)
  have d: "np_random_randint (length m) w = (Inr a, w\<lparr>np_integers := stl (np_integers w)\<rparr>)"
    using assms(1,2) by (simp add: np_random_randint_def a_def)
  have g: "nb_getitem (Some nb) a = Inr (nb ! nat a)"
    using a assms(3) by (intro nb_getitem_valid) simp_all
  have "\<forall>i \<in> set (a # nb ! nat a). - int (length m) \<le> i \<and> i < int (length m)"
    using assms(1,4) a by auto
  from np_setitems_valid [OF this, of 0] obtain m' where
    s: "np_setitems m (a # nb ! nat a) 0 = Inr m'" by blast
  show ?thesis
    unfolding ensure_cluster_def d prod.case sum.case g
    by (simp add: s)
qed

lemma ensure_one_returns:
  assumes "0 < length m"
  shows "fst (ensure_one m w) = None"
proof -
  have "norm_index (length m) (int (shd (np_integers w) mod length m)) \<noteq> None"
    using assms by (intro norm_index_valid) simp_all
  then show ?thesis
    using assms
    by (auto simp: ensure_one_def np_random_randint_def np_setitem_def split: option.splits)
qed

lemma correlation_pass_returns:
  assumes "0 < length m" and "length m \<le> length nb"
    and "\<forall>i < length m. length (nb ! i) \<le> length m"
  shows "fst (correlation_pass (Some nb) m w) = None"
proof -
  define a where "a = int (shd (py_random w) mod length m)"
  define w1 where "w1 = w\<lparr>py_random := stl (py_random w)\<rparr>"
  have a: "0 \<le> a" "a < int (length m)" "nat a < length m"
    using assms(1) by (simp_all add: a_def)
  have d: "random_randint 0 (int (length m) - 1) w = (Inr a, w1)"
    using assms(1) by (simp add: random_randint_def a_def w1_def nat_diff_distrib')
  have g: "nb_getitem (Some nb) a = Inr (nb ! nat a)"
    using a assms(2) by (intro nb_getitem_valid) simp_all
  show ?thesis
  proof (cases "nb ! nat a = []")
    case True
    then show ?thesis
      unfolding correlation_pass_def d prod.case sum.case g by simp
  next
    case False
    define b where "b = int (shd (py_random w1) mod length (nb ! nat a))"
    have b: "0 \<le> b" "b < int (length m)"
      using False assms(3) a(3)
      by (simp_all add: b_def) (meson less_le_trans length_greater_0_conv mod_less_divisor)
    have e: "random_randint 0 (int (length (nb ! nat a)) - 1) w1 =
               (Inr b, w1\<lparr>py_random := stl (py_random w1)\<rparr>)"
      using False by (simp add: random_randint_def b_def nat_diff_distrib')
    have x: "np_getitem m b = Inr (m ! nat b)"
      using b by (simp add: np_getitem_def norm_index_def)
    have y: "np_setitem m a (m ! nat b) = Inr (m[nat a := m ! nat b])"
      using a by (simp add: np_setitem_def norm_index_def)
    show ?thesis
      unfolding correlation_pass_def d prod.case sum.case g
      using False by (simp add: e x y)
  qed
qed

lemma correlation_pass_length: "length (fst (snd (correlation_pass nb m w))) = length m"
  using correlation_pass_cases [of nb m w] by auto

lemma correlation_loop_returns:
  assumes "0 < length m" and "length m \<le> length nb"
    and "\<forall>i < length m. length (nb ! i) \<le> length m"
  shows "fst (correlation_loop k (Some nb) m w) = None \<and>
         length (fst (snd (correlation_loop k (Some nb) m w))) = length m"
  using assms
proof (induction k arbitrary: m w)
  case 0
  show ?case by simp
next
  case (Suc k)
  obtain r m1 w1 where p: "correlation_pass (Some nb) m w = (r, m1, w1)"
    by (cases "correlation_pass (Some nb) m w") auto
  have r: "r = None"
    using correlation_pass_returns [OF Suc.prems, of w] p by simp
  have l: "length m1 = length m"
    using correlation_pass_length [of "Some nb" m w] p by simp
  have "fst (correlation_loop k (Some nb) m1 w1) = None \<and>
        length (fst (snd (correlation_loop k (Some nb) m1 w1))) = length m1"
    using Suc.prems by (intro Suc.IH) (simp_all add: l)
  then show ?case
    using p r l by simp
qed

lemma recreate_mask_returns:
  assumes "bert_pretraining d" and "vocab_targets d = Some vt" and "vt \<noteq> []"
    and "bert_mask_prob d = Some p" and "bert_mask_type d = Some ty"
    and "ty = ''cluster'' \<or> ty = ''correlation'' \<or> ty = ''random''"
    and "nb_indices d = Some nb" and "length vt \<le> length nb"
    and "\<forall>i < length vt. length (nb ! i) \<le> length vt \<and>
           (\<forall>j \<in> set (nb ! i). - int (length vt) \<le> j \<and> j < int (length vt))"
  shows "fst (recreate_mask d w) = None"
proof -
  define n where "n = length vt"
  have n: "0 < n" using assms(3) by (simp add: n_def)
  have nbj: "\<forall>i < n. \<forall>j \<in> set (nb ! i). - int n \<le> j \<and> j < int n"
    and nbl: "\<forall>i < n. length (nb ! i) \<le> n" and nn: "n \<le> length nb"
    using assms(8,9) by (simp_all add: n_def)
  have cluster: "fst (mask_cluster (Some p) (Some nb) n w) = None"
  proof -
    define st where
      "st = cluster_loop (Some p) (Some nb)
              \<lparr>cs_mask = replicate n 1, cs_atoms = map int [0..<n], cs_world = w,
               cs_raised = None\<rparr>"
    have r: "cs_raised st = None"
      unfolding st_def by (rule cluster_loop_returns [where n = n]) (use nn nbj in auto)
    have l: "length (cs_mask st) = n"
      using cluster_loop_mask
              [of "Some p" "Some nb" "\<lparr>cs_mask = replicate n 1, cs_atoms = map int [0..<n],
                                        cs_world = w, cs_raised = None\<rparr>"]
      by (simp add: st_def)
    have "mask_cluster (Some p) (Some nb) n w = ensure_cluster (Some nb) (cs_mask st) (cs_world st)"
      unfolding mask_cluster_def Let_def st_def [symmetric] by (simp add: r)
    then show ?thesis
      using ensure_cluster_returns [OF l n nn nbj] by simp
  qed
  obtain m0 w1 where b: "bernoulli_mask (Some p) n w = (Inr m0, w1)" and l0: "length m0 = n"
    by (simp add: bernoulli_mask_def np_random_rand_def)
  have random: "\<exists>m. fst (mask_random (Some p) n w) = Inr (None, m)"
  proof -
    obtain r m1 w2 where e: "ensure_one m0 w1 = (r, m1, w2)"
      by (cases "ensure_one m0 w1") auto
    have "r = None"
      using ensure_one_returns [of m0 w1] e n l0 by simp
    then show ?thesis
      by (simp add: mask_random_def b e)
  qed
  have correlation: "\<exists>m. fst (mask_correlation (Some p) (Some nb) n w) = Inr (None, m)"
  proof -
    obtain r1 m1 w2 where c: "correlation_loop (length m0) (Some nb) m0 w1 = (r1, m1, w2)"
      by (cases "correlation_loop (length m0) (Some nb) m0 w1") auto
    have "r1 = None \<and> length m1 = length m0"
      using correlation_loop_returns [of m0 nb "length m0" w1] c n l0 nn nbl by simp
    then have r1: "r1 = None" and l1: "0 < length m1"
      using n l0 by simp_all
    obtain r m2 w3 where e: "ensure_one m1 w2 = (r, m2, w3)"
      by (cases "ensure_one m1 w2") auto
    have "r = None"
      using ensure_one_returns [OF l1, of w2] e by simp
    then show ?thesis
      by (simp add: mask_correlation_def b c r1 e)
  qed
  from assms(6) show ?thesis
  proof (elim disjE)
    assume "ty = ''cluster''"
    then show ?thesis
      using assms(1,2,4,5,7) cluster
      by (auto simp: recreate_mask_def n_def [symmetric] split: prod.splits)
  next
    assume "ty = ''correlation''"
    then show ?thesis
      using assms(1,2,4,5,7) correlation
      by (auto simp: recreate_mask_def n_def [symmetric] split: prod.splits sum.splits)
  next
    assume "ty = ''random''"
    then show ?thesis
      using assms(1,2,4,5,7) random
      by (auto simp: recreate_mask_def n_def [symmetric] split: prod.splits sum.splits)
  qed
qed

text \<open>
  Claim C1. Every mask that \<^verbatim>\<open>recreate_mask\<close> produces, under the cluster, the correlation
  or the random policy, has as many entries as there are vocabulary targets, and at least
  one entry is \<open>0\<close>; every entry is \<open>0\<close> or \<open>1\<close>. (A call that returns has passed the guard
  on self-supervised mode and taken one of the three policies, and the datapoint has at
  least one target: with no target the forced masking raises. By \<open>recreate_mask_returns\<close>
  a call does return when the adjacency structure is well formed.)
\<close>

theorem recreate_mask_masks_something:
  assumes "bert_pretraining d" and "vocab_targets d = Some vt" and "vt \<noteq> []"
    and "recreate_mask d w = (None, d', w')"
  shows "\<exists>m. mask d' = Some m \<and> length m = length vt \<and> 0 \<in> set m \<and> set m \<subseteq> {0, 1}"
proof -
  obtain ty where ty: "bert_mask_type d = Some ty"
    using assms by (cases "bert_mask_type d") (simp_all add: recreate_mask_def Let_def)
  have policy: "ty = ''cluster'' \<or> ty = ''correlation'' \<or> ty = ''random''"
    using assms ty by (auto simp: recreate_mask_def Let_def split: if_splits)
  have "\<exists>m. mask d' = Some m \<and> length m = length vt \<and> 0 \<in> set m \<and> (\<forall>x \<in> set m. x \<le> 1)"
  proof (cases "ty = ''cluster''")
    case True
    obtain r m w1 where c: "mask_cluster (bert_mask_prob d) (nb_indices d) (length vt) w = (r, m, w1)"
      by (cases "mask_cluster (bert_mask_prob d) (nb_indices d) (length vt) w") auto
    from assms ty True c have "r = None" "d' = d\<lparr>mask := Some m\<rparr>"
      by (simp_all add: recreate_mask_def Let_def)
    then show ?thesis
      using mask_cluster_zero [of "bert_mask_prob d" "nb_indices d" "length vt" w m w1] c by simp
  next
    case False
    note not_cluster = this
    show ?thesis
    proof (cases "ty = ''correlation''")
      case True
      obtain a w1 where c:
        "mask_correlation (bert_mask_prob d) (nb_indices d) (length vt) w = (a, w1)"
        by (cases "mask_correlation (bert_mask_prob d) (nb_indices d) (length vt) w") auto
      from assms ty True c obtain r m where a: "a = Inr (r, m)"
        by (cases a) (auto simp: recreate_mask_def Let_def split: if_splits)
      from assms ty True c a have "r = None" "d' = d\<lparr>mask := Some m\<rparr>"
        by (simp_all add: recreate_mask_def Let_def)
      then show ?thesis
        using mask_correlation_zero [of "bert_mask_prob d" "nb_indices d" "length vt" w m w1] c a
        by simp
    next
      case False
      with policy not_cluster have rnd: "ty = ''random''" by simp
      obtain a w1 where c: "mask_random (bert_mask_prob d) (length vt) w = (a, w1)"
        by (cases "mask_random (bert_mask_prob d) (length vt) w") auto
      from assms ty rnd c obtain r m where a: "a = Inr (r, m)"
        by (cases a) (auto simp: recreate_mask_def Let_def split: if_splits)
      from assms ty rnd c a have "r = None" "d' = d\<lparr>mask := Some m\<rparr>"
        by (simp_all add: recreate_mask_def Let_def)
      then show ?thesis
        using mask_random_zero [of "bert_mask_prob d" "length vt" w m w1] c a by simp
    qed
  qed
  then obtain m where m: "mask d' = Some m" "length m = length vt" "0 \<in> set m"
    "\<forall>x \<in> set m. x \<le> 1" by blast
  have "set m \<subseteq> {0, 1}"
  proof
    fix x assume "x \<in> set m"
    with m(4) have "x \<le> 1" by simp
    then show "x \<in> {0, 1}" by auto
  qed
  with m show ?thesis by blast
qed

theorem recreate_mask_masks_something_witness:
  "bert_pretraining (example_bert_datapoint ''cluster'') \<and>
   vocab_targets (example_bert_datapoint ''cluster'') = Some [5, 5, 7] \<and>
   recreate_mask (example_bert_datapoint ''cluster'') (example_world\<lparr>np_uniform := sconst (1 / 2)\<rparr>)
     = (None, (example_bert_datapoint ''cluster'')\<lparr>mask := Some [0, 0, 1]\<rparr>,
        example_world\<lparr>np_uniform := sconst (1 / 2)\<rparr>) \<and>
   recreate_mask (example_bert_datapoint ''correlation'')
       (example_world\<lparr>np_uniform := sconst (1 / 2)\<rparr>)
     = (None, (example_bert_datapoint ''correlation'')\<lparr>mask := Some [0, 1, 1]\<rparr>,
        example_world\<lparr>np_uniform := sconst (1 / 2)\<rparr>) \<and>
   recreate_mask (example_bert_datapoint ''random'') example_world
     = (None, (example_bert_datapoint ''random'')\<lparr>mask := Some [0, 0, 0]\<rparr>, example_world)"
proof -
  define W where "W = example_world\<lparr>np_uniform := sconst (1 / 2)\<rparr>"
  define nb :: "int list list option" where "nb = Some [[1], [0, 2], [1]]"
  have st: "cluster_loop (Some (3 / 20)) nb
              \<lparr>cs_mask = [1, 1, 1], cs_atoms = [0, 1, 2], cs_world = W, cs_raised = None\<rparr>
            = \<lparr>cs_mask = [1, 1, 1], cs_atoms = [], cs_world = W, cs_raised = None\<rparr>"
    by (simp add: cluster_loop.simps cluster_body_def set_pop_def nb_getitem_def
          list_getitem_def norm_index_def np_random_random_def W_def nb_def
          example_world_def Let_def)
  have ec: "ensure_cluster nb [1, 1, 1] W = (None, [0, 0, 1], W)"
    by (simp add: ensure_cluster_def nb_getitem_def list_getitem_def norm_index_def
          np_random_randint_def np_setitems_def W_def nb_def example_world_def)
  have i3: "map int [0..<3] = [0, 1, 2]"
    by (simp add: upt_rec)
  have r3: "replicate 3 (1::nat) = [1, 1, 1]"
    by (simp add: numeral_3_eq_3)
  have mc: "mask_cluster (Some (3 / 20)) nb 3 W = (None, [0, 0, 1], W)"
    unfolding mask_cluster_def i3 r3 st Let_def by (simp add: ec [unfolded One_nat_def])
  have c: "recreate_mask (example_bert_datapoint ''cluster'') W
           = (None, (example_bert_datapoint ''cluster'')\<lparr>mask := Some [0, 0, 1]\<rparr>, W)"
    by (simp add: recreate_mask_def example_bert_datapoint_def mc [unfolded nb_def numeral_3_eq_3 One_nat_def])
  have bm: "bernoulli_mask (Some (3 / 20)) 3 W = (Inr [1, 1, 1], W)"
    by (simp add: bernoulli_mask_def np_random_rand_def numeral_3_eq_3 W_def example_world_def)
  have cp: "correlation_pass nb [1, 1, 1] W = (None, [1, 1, 1], W)"
    by (simp add: correlation_pass_def random_randint_def nb_getitem_def list_getitem_def
          norm_index_def np_getitem_def np_setitem_def W_def nb_def example_world_def)
  have cl: "correlation_loop 3 nb [1, 1, 1] W = (None, [1, 1, 1], W)"
    by (simp add: numeral_3_eq_3 cp [unfolded One_nat_def])
  have eo: "ensure_one [1, 1, 1] W = (None, [0, 1, 1], W)"
    by (simp add: ensure_one_def np_random_randint_def np_setitem_def norm_index_def W_def
          example_world_def)
  have l3: "length [1, 1, 1 :: nat] = 3"
    by simp
  have mr: "mask_correlation (Some (3 / 20)) nb 3 W = (Inr (None, [0, 1, 1]), W)"
    unfolding mask_correlation_def bm prod.case sum.case l3 cl option.case eo by simp
  have r: "recreate_mask (example_bert_datapoint ''correlation'') W
           = (None, (example_bert_datapoint ''correlation'')\<lparr>mask := Some [0, 1, 1]\<rparr>, W)"
    by (simp add: recreate_mask_def example_bert_datapoint_def mr [unfolded nb_def numeral_3_eq_3 One_nat_def])
  have n: "recreate_mask (example_bert_datapoint ''random'') example_world
           = (None, (example_bert_datapoint ''random'')\<lparr>mask := Some [0, 0, 0]\<rparr>, example_world)"
    by (simp add: recreate_mask_def mask_random_def bernoulli_mask_def ensure_one_def
          np_random_rand_def example_bert_datapoint_def example_world_def Let_def
          numeral_3_eq_3)
  have b: "bert_pretraining (example_bert_datapoint ''cluster'')"
    and v: "vocab_targets (example_bert_datapoint ''cluster'') = Some [5, 5, 7]"
    by (simp_all add: example_bert_datapoint_def)
  show ?thesis
    using recreate_mask_masks_something [OF b v _ c] c r n b v by (simp add: W_def)
qed

section \<open>The correlation pass\<close>

text \<open>
  Claim C2 describes a pass that copies the mask value of a random neighbour onto the
  picked atom. The pass draws \<^verbatim>\<open>nbr_index\<close>, a position in the neighbour list of the picked
  atom, and then reads \<^verbatim>\<open>self.mask[nbr_index]\<close>: the mask value of the atom whose index is
  that position, not of the neighbour stored at that position. With the bonds 0-2 and 1-2,
  the mask \<^verbatim>\<open>[1, 1, 0]\<close> and atom 0 picked, the only neighbour of atom 0 is atom 2, whose
  value is 0; the pass reads position 0 and leaves the mask as it was.
\<close>

theorem correlation_pass_reads_position:
  "correlation_pass (Some [[2], [2], [0, 1]]) [1, 1, 0] example_world
     = (None, [1, 1, 0], example_world) \<and>
   list_getitem [[2], [2], [0, 1 :: int]] 0 = Inr [2] \<and>
   np_getitem [1, 1, 0 :: nat] 2 = Inr 0 \<and>
   np_setitem [1, 1, 0 :: nat] 0 0 = Inr [0, 1, 0]"
  by (simp add: correlation_pass_def random_randint_def nb_getitem_def list_getitem_def
        norm_index_def np_getitem_def np_setitem_def example_world_def)

end
